theory Spec2Isabelle
  imports Main "HOL-Library.Word" "HOL-Library.Signed_Division" "HOL-Library.Monad_Syntax"
begin

unbundle bit_operations_syntax

section \<open>Diagnostics\<close>

text \<open>
  \<open>debug_warn\<close> and a failing \<open>debug_assert\<close> report a message and let the caller
  continue with the next statement. Every component below carries the messages it has
  reported so far in a field of its state, newest last; nothing else of the state is
  touched by a report.
\<close>

type_synonym diag = string

section \<open>Block cache (class BlockMgr)\<close>

text \<open>
  Pointers are addresses (\<open>nat\<close>, 0 is the null pointer). \<open>atom_fn\<close> is the interned
  file name, compared by address as in the source.
\<close>

definition MAX_BLOCKS :: nat where
  "MAX_BLOCKS = 32"

datatype BlockStatus = BS_PENDING | BS_COMPLETE | BS_INVALID

record BlockId =
  atom_fn :: nat
  block_num :: "32 word"

record Block =
  b_id :: BlockId
  b_mem :: nat
  b_status :: BlockStatus
  b_refs :: int

record BlockMgr =
  blocks :: "Block list"
  oldest_block :: nat
  bm_warnings :: "diag list"

definition block_eq :: "BlockId \<Rightarrow> BlockId \<Rightarrow> bool" where
  "block_eq b1 b2 \<longleftrightarrow> atom_fn b1 = atom_fn b2 \<and> block_num b1 = block_num b2"

text \<open>
  \<open>block_cache_make_id\<close>: \<open>ofs\<close> is a signed \<open>off_t\<close>, the division truncates as in C and the
  quotient is cast to \<open>u32\<close>. \<open>FILE_BLOCK_SIZE\<close> is declared outside the file and is a
  parameter here.
\<close>

definition block_cache_make_id :: "int \<Rightarrow> nat \<Rightarrow> int \<Rightarrow> BlockId" where
  "block_cache_make_id FILE_BLOCK_SIZE fn ofs =
     \<lparr>atom_fn = fn, block_num = word_of_int (ofs sdiv FILE_BLOCK_SIZE)\<rparr>"

text \<open>
  The constructor: every slot starts as \<open>Block()\<close> and gets its memory from a pool of
  \<open>MAX_BLOCKS\<close> elements of \<open>FILE_BLOCK_SIZE\<close> bytes each, whose base address is the
  parameter \<open>pool_base\<close>.
\<close>

definition Block_ctor :: "int \<Rightarrow> nat \<Rightarrow> Block" where
  "Block_ctor FILE_BLOCK_SIZE m =
     \<lparr>b_id = block_cache_make_id FILE_BLOCK_SIZE 0 0, b_mem = m,
      b_status = BS_INVALID, b_refs = 0\<rparr>"

definition BlockMgr_ctor :: "int \<Rightarrow> nat \<Rightarrow> BlockMgr" where
  "BlockMgr_ctor FILE_BLOCK_SIZE pool_base =
     \<lparr>blocks = map (\<lambda>i. Block_ctor FILE_BLOCK_SIZE (pool_base + i * nat FILE_BLOCK_SIZE))
                 [0..<MAX_BLOCKS],
      oldest_block = 0, bm_warnings = []\<rparr>"

definition bm_warn :: "diag \<Rightarrow> BlockMgr \<Rightarrow> BlockMgr" where
  "bm_warn msg bm = bm\<lparr>bm_warnings := bm_warnings bm @ [msg]\<rparr>"

text \<open>
  The loop \<open>for(b = blocks; b < blocks+MAX_BLOCKS; b++) if(block_eq(b->id, id)) ...\<close>
  that \<open>mark_completed\<close>, \<open>find\<close> and \<open>release\<close> leave at the first hit: the index of
  the first slot whose id equals \<open>bid\<close>, whatever its status.
\<close>

fun first_match :: "BlockId \<Rightarrow> Block list \<Rightarrow> nat option" where
  "first_match bid [] = None"
| "first_match bid (b # bs) =
     (if block_eq (b_id b) bid then Some 0 else map_option Suc (first_match bid bs))"

text \<open>
  The second loop of \<open>alloc\<close>, with the number of iterations still to run. Each iteration
  reads the slot under the cursor and advances the cursor; it leaves the loop with the
  slot's index when the slot is neither pending nor referenced, goes on silently when
  the slot is complete and referenced, and goes on with a warning otherwise.
\<close>

fun alloc_scan :: "nat \<Rightarrow> BlockMgr \<Rightarrow> nat option \<times> BlockMgr" where
  "alloc_scan 0 bm = (None, bm)"
| "alloc_scan (Suc n) bm =
     (let i = oldest_block bm;
          b = blocks bm ! i;
          bm1 = bm\<lparr>oldest_block := (i + 1) mod MAX_BLOCKS\<rparr>
      in if b_status b \<noteq> BS_PENDING \<and> b_refs b = 0 then (Some i, bm1)
         else if b_status b = BS_COMPLETE \<and> b_refs b > 0 then alloc_scan n bm1
         else alloc_scan n (bm_warn ''status and/or refs have unexpected values'' bm1))"

definition BlockMgr_alloc :: "BlockMgr \<Rightarrow> BlockId \<Rightarrow> nat option \<times> BlockMgr" where
  "BlockMgr_alloc bm bid =
     (let bm1 = foldl (\<lambda>s b. if block_eq (b_id b) bid
                               then bm_warn ''allocating block that is already in list'' s
                               else s) bm (blocks bm)
      in case alloc_scan MAX_BLOCKS bm1 of
           (None, bm2) \<Rightarrow> (None, bm_warn ''all blocks are locked'' bm2)
         | (Some i, bm2) \<Rightarrow>
             (Some (b_mem (blocks bm2 ! i)),
              bm2\<lparr>blocks := (blocks bm2)[i := (blocks bm2 ! i)\<lparr>b_id := bid, b_status := BS_PENDING\<rparr>]\<rparr>))"

definition mark_completed :: "BlockMgr \<Rightarrow> BlockId \<Rightarrow> BlockMgr" where
  "mark_completed bm bid =
     (case first_match bid (blocks bm) of
        Some i \<Rightarrow>
          (let b = blocks bm ! i;
               bm1 = (if b_status b = BS_PENDING then bm
                      else bm_warn ''assertion failed: b->status == BS_PENDING'' bm)
           in bm1\<lparr>blocks := (blocks bm)[i := b\<lparr>b_status := BS_COMPLETE\<rparr>]\<rparr>)
      | None \<Rightarrow> bm_warn ''mark_completed: block not found, but ought still to be in cache'' bm)"

definition BlockMgr_find :: "BlockMgr \<Rightarrow> BlockId \<Rightarrow> nat option \<times> BlockMgr" where
  "BlockMgr_find bm bid =
     (case first_match bid (blocks bm) of
        Some i \<Rightarrow>
          (let b = blocks bm ! i
           in if b_status b = BS_COMPLETE
              then (let bm1 = (if b_refs b \<ge> 0 then bm
                               else bm_warn ''assertion failed: b->refs >= 0'' bm)
                    in (Some (b_mem b), bm1\<lparr>blocks := (blocks bm)[i := b\<lparr>b_refs := b_refs b + 1\<rparr>]\<rparr>))
              else (None, bm_warn ''block referenced while still in progress'' bm))
      | None \<Rightarrow> (None, bm))"

definition BlockMgr_release :: "BlockMgr \<Rightarrow> BlockId \<Rightarrow> BlockMgr" where
  "BlockMgr_release bm bid =
     (case first_match bid (blocks bm) of
        Some i \<Rightarrow>
          (let b = blocks bm ! i;
               bm1 = bm\<lparr>blocks := (blocks bm)[i := b\<lparr>b_refs := b_refs b - 1\<rparr>]\<rparr>
           in if b_refs b - 1 \<ge> 0 then bm1
              else bm_warn ''assertion failed: b->refs >= 0'' bm1)
      | None \<Rightarrow> bm_warn ''release: block not found, but ought still to be in cache'' bm)"

definition invalidate_block :: "nat \<Rightarrow> Block \<Rightarrow> Block" where
  "invalidate_block fn b =
     (if atom_fn (b_id b) = fn then b\<lparr>b_status := BS_INVALID\<rparr> else b)"

definition BlockMgr_invalidate :: "BlockMgr \<Rightarrow> nat \<Rightarrow> BlockMgr" where
  "BlockMgr_invalidate bm fn =
     (let bm1 = foldl (\<lambda>s b. if atom_fn (b_id b) = fn \<and> b_refs b \<noteq> 0
                               then bm_warn ''invalidating block that is currently in-use'' s
                               else s) bm (blocks bm)
      in bm1\<lparr>blocks := map (invalidate_block fn) (blocks bm)\<rparr>)"

text \<open>Sequences of calls on the block cache, from its public interface.\<close>

datatype bm_op =
    OpAlloc BlockId
  | OpMarkCompleted BlockId
  | OpFind BlockId
  | OpRelease BlockId
  | OpInvalidate nat

fun bm_step :: "BlockMgr \<Rightarrow> bm_op \<Rightarrow> BlockMgr" where
  "bm_step bm (OpAlloc bid) = snd (BlockMgr_alloc bm bid)"
| "bm_step bm (OpMarkCompleted bid) = mark_completed bm bid"
| "bm_step bm (OpFind bid) = snd (BlockMgr_find bm bid)"
| "bm_step bm (OpRelease bid) = BlockMgr_release bm bid"
| "bm_step bm (OpInvalidate fn) = BlockMgr_invalidate bm fn"

fun bm_run :: "BlockMgr \<Rightarrow> bm_op list \<Rightarrow> BlockMgr" where
  "bm_run bm [] = bm"
| "bm_run bm (x # xs) = bm_run (bm_step bm x) xs"

subsection \<open>Properties of the block cache\<close>

definition reusable :: "Block \<Rightarrow> bool" where
  "reusable b \<longleftrightarrow> b_status b \<noteq> BS_PENDING \<and> b_refs b = 0"

definition ring_slot :: "BlockMgr \<Rightarrow> nat \<Rightarrow> nat" where
  "ring_slot bm k = (oldest_block bm + k) mod MAX_BLOCKS"

definition unique_live_ids :: "BlockMgr \<Rightarrow> bool" where
  "unique_live_ids bm \<longleftrightarrow>
     (\<forall>i < length (blocks bm). \<forall>j < length (blocks bm).
        i \<noteq> j \<and> b_status (blocks bm ! i) \<noteq> BS_INVALID \<and> b_status (blocks bm ! j) \<noteq> BS_INVALID
        \<longrightarrow> \<not> block_eq (b_id (blocks bm ! i)) (b_id (blocks bm ! j)))"

definition demo_id :: "nat \<Rightarrow> BlockId" where
  "demo_id n = \<lparr>atom_fn = 7, block_num = of_nat n\<rparr>"

definition demo_locked_ring :: BlockMgr where
  "demo_locked_ring =
     \<lparr>blocks = \<lparr>b_id = demo_id 0, b_mem = 4096, b_status = BS_COMPLETE, b_refs = 1\<rparr>
                # map (\<lambda>i. \<lparr>b_id = demo_id i, b_mem = 4096 + i * 65536, b_status = BS_COMPLETE, b_refs = 0\<rparr>)
                    [1..<32],
      oldest_block = 0, bm_warnings = []\<rparr>"

definition demo_mgr :: BlockMgr where
  "demo_mgr = BlockMgr_ctor 65536 4096"

section \<open>Buffers held by the application (class ExtantBufMgr)\<close>

text \<open>
  \<open>refs\<close> and \<open>epoch\<close> are \<open>uint\<close>: 32-bit words, whose \<open>++\<close> and \<open>--\<close> wrap around.
  Buffer addresses and sizes are natural numbers; \<open>buf = 0\<close> marks a slot as free.
\<close>

record ExtantBuf =
  eb_buf :: nat
  eb_size :: nat
  eb_atom_fn :: nat
  eb_refs :: "32 word"
  eb_epoch :: "32 word"

record ExtantBufMgr =
  extant_bufs :: "ExtantBuf list"
  epoch :: "32 word"
  eb_warnings :: "diag list"

definition ExtantBufMgr_ctor :: ExtantBufMgr where
  "ExtantBufMgr_ctor = \<lparr>extant_bufs = [], epoch = 1, eb_warnings = []\<rparr>"

definition eb_warn :: "diag \<Rightarrow> ExtantBufMgr \<Rightarrow> ExtantBufMgr" where
  "eb_warn msg m = m\<lparr>eb_warnings := eb_warnings m @ [msg]\<rparr>"

definition eb_assert :: "bool \<Rightarrow> diag \<Rightarrow> ExtantBufMgr \<Rightarrow> ExtantBufMgr" where
  "eb_assert c msg m = (if c then m else eb_warn msg m)"

definition matches :: "ExtantBuf \<Rightarrow> nat \<Rightarrow> bool" where
  "matches eb buf \<longleftrightarrow> eb_buf eb \<le> buf \<and> buf < eb_buf eb + eb_size eb"

text \<open>
  The loops over \<open>extant_bufs\<close> all leave at the first entry that passes a test:
  \<open>first_index P xs\<close> is the index of that entry.
\<close>

fun first_index :: "('a \<Rightarrow> bool) \<Rightarrow> 'a list \<Rightarrow> nat option" where
  "first_index P [] = None"
| "first_index P (x # xs) = (if P x then Some 0 else map_option Suc (first_index P xs))"

text \<open>The slot \<open>add\<close> writes: the first hole, or the end of the vector.\<close>

definition add_slot :: "ExtantBufMgr \<Rightarrow> nat" where
  "add_slot m = (case first_index (\<lambda>eb. eb_buf eb = 0) (extant_bufs m) of
                   Some i \<Rightarrow> i | None \<Rightarrow> length (extant_bufs m))"

definition ExtantBufMgr_add :: "ExtantBufMgr \<Rightarrow> nat \<Rightarrow> nat \<Rightarrow> nat \<Rightarrow> bool \<Rightarrow> ExtantBufMgr" where
  "ExtantBufMgr_add m buf size0 fn long_lived =
     (let sz = (if size0 = 0 then 1 else size0);
          this_epoch = (if long_lived then 0 else epoch m);
          m1 = (if long_lived then m else m\<lparr>epoch := epoch m + 1\<rparr>);
          m2 = eb_assert (buf \<noteq> 0) ''assertion failed: buf != 0'' m1
      in case first_index (\<lambda>eb. eb_buf eb = 0) (extant_bufs m2) of
           Some i \<Rightarrow>
             (let eb = extant_bufs m2 ! i;
                  m3 = eb_assert (eb_refs eb = 0) ''assertion failed: eb.refs == 0'' m2
              in m3\<lparr>extant_bufs := (extant_bufs m2)
                       [i := eb\<lparr>eb_refs := 1, eb_buf := buf, eb_size := sz,
                                 eb_atom_fn := fn, eb_epoch := this_epoch\<rparr>]\<rparr>)
         | None \<Rightarrow>
             m2\<lparr>extant_bufs := extant_bufs m2 @
                    [\<lparr>eb_buf = buf, eb_size = sz, eb_atom_fn = fn, eb_refs = 1,
                      eb_epoch = this_epoch\<rparr>]\<rparr>)"

definition add_ref :: "ExtantBufMgr \<Rightarrow> nat \<Rightarrow> nat \<Rightarrow> nat \<Rightarrow> ExtantBufMgr" where
  "add_ref m buf size0 fn =
     (case first_index (\<lambda>eb. matches eb buf) (extant_bufs m) of
        Some i \<Rightarrow>
          (let eb = extant_bufs m ! i
           in m\<lparr>extant_bufs := (extant_bufs m)[i := eb\<lparr>eb_refs := eb_refs eb + 1\<rparr>]\<rparr>)
      | None \<Rightarrow> ExtantBufMgr_add m buf size0 fn False)"

definition get_owner_filename :: "ExtantBufMgr \<Rightarrow> nat \<Rightarrow> nat \<times> ExtantBufMgr" where
  "get_owner_filename m buf =
     (let m1 = eb_assert (buf \<noteq> 0) ''assertion failed: buf != 0'' m
      in case first_index (\<lambda>eb. matches eb buf) (extant_bufs m1) of
           Some i \<Rightarrow> (eb_atom_fn (extant_bufs m1 ! i), m1)
         | None \<Rightarrow> (0, m1))"

text \<open>
  \<open>find_and_remove\<close> returns \<open>actually_removed\<close> and, when an entry matched, what it wrote
  to its reference parameters \<open>exact_buf\<close>, \<open>size\<close> and \<open>atom_fn\<close>; when none matched
  it writes nothing to them (\<open>None\<close>).
\<close>

definition find_and_remove ::
    "ExtantBufMgr \<Rightarrow> nat \<Rightarrow> (bool \<times> (nat \<times> nat \<times> nat) option) \<times> ExtantBufMgr" where
  "find_and_remove m buf =
     (let m1 = eb_assert (buf \<noteq> 0) ''assertion failed: buf != 0'' m
      in case first_index (\<lambda>eb. matches eb buf) (extant_bufs m1) of
           Some i \<Rightarrow>
             (let eb = extant_bufs m1 ! i;
                  outs = (eb_buf eb, eb_size eb, eb_atom_fn eb);
                  eb1 = eb\<lparr>eb_refs := eb_refs eb - 1\<rparr>;
                  actually_removed = (eb_refs eb1 = 0);
                  eb2 = (if actually_removed
                         then eb1\<lparr>eb_buf := 0, eb_size := 0, eb_atom_fn := 0\<rparr> else eb1);
                  m2 = m1\<lparr>extant_bufs := (extant_bufs m1)[i := eb2]\<rparr>;
                  m3 = (if eb_epoch eb2 \<noteq> 0 \<and> eb_epoch eb2 \<noteq> epoch m2 - 1
                        then eb_warn ''buf not released immediately'' m2 else m2)
              in ((actually_removed, Some outs), m3\<lparr>epoch := epoch m3 + 1\<rparr>))
         | None \<Rightarrow> ((False, None), eb_warn ''buf is not on extant list! double free?'' m1))"

definition replace_owner :: "ExtantBufMgr \<Rightarrow> nat \<Rightarrow> nat \<Rightarrow> ExtantBufMgr" where
  "replace_owner m buf fn =
     (let m1 = eb_assert (buf \<noteq> 0) ''assertion failed: buf != 0'' m
      in case first_index (\<lambda>eb. matches eb buf) (extant_bufs m1) of
           Some i \<Rightarrow> m1\<lparr>extant_bufs := (extant_bufs m1)[i := (extant_bufs m1 ! i)\<lparr>eb_atom_fn := fn\<rparr>]\<rparr>
         | None \<Rightarrow> eb_warn ''to-be-replaced buf not found'' m1)"

text \<open>A run of \<open>add_ref\<close> calls, and a run of \<open>find_and_remove\<close> calls that collects the flags returned.\<close>

fun add_refs :: "ExtantBufMgr \<Rightarrow> (nat \<times> nat \<times> nat) list \<Rightarrow> ExtantBufMgr" where
  "add_refs m [] = m"
| "add_refs m ((buf, size0, fn) # cs) = add_refs (add_ref m buf size0 fn) cs"

fun releases :: "ExtantBufMgr \<Rightarrow> nat list \<Rightarrow> bool list \<times> ExtantBufMgr" where
  "releases m [] = ([], m)"
| "releases m (buf # bs) =
     (let (r, m1) = find_and_remove m buf;
          (fs, m2) = releases m1 bs
      in (fst r # fs, m2))"

subsection \<open>Properties of the registry\<close>

text \<open>The addresses of a buffer registered with \<open>size0\<close> bytes (0 counts as 1).\<close>

definition buf_range :: "nat \<Rightarrow> nat \<Rightarrow> nat set" where
  "buf_range buf size0 = {a. buf \<le> a \<and> a < buf + (if size0 = 0 then 1 else size0)}"

text \<open>No entry of the registry contains an address of the set.\<close>

definition untracked :: "ExtantBufMgr \<Rightarrow> nat set \<Rightarrow> bool" where
  "untracked m A \<longleftrightarrow> (\<forall>eb \<in> set (extant_bufs m). \<forall>a \<in> A. \<not> matches eb a)"

text \<open>
  Slot \<open>i\<close> holds the buffer \<open>buf\<close> with reference count \<open>r\<close>, and it is the only entry
  that contains an address of the buffer.
\<close>

definition holds_at :: "ExtantBufMgr \<Rightarrow> nat \<Rightarrow> nat \<Rightarrow> nat \<Rightarrow> 32 word \<Rightarrow> bool" where
  "holds_at m i buf size0 r \<longleftrightarrow>
     i < length (extant_bufs m) \<and>
     eb_buf (extant_bufs m ! i) = buf \<and>
     eb_size (extant_bufs m ! i) = (if size0 = 0 then 1 else size0) \<and>
     eb_refs (extant_bufs m ! i) = r \<and>
     (\<forall>j < length (extant_bufs m). j \<noteq> i \<longrightarrow>
        (\<forall>a \<in> buf_range buf size0. \<not> matches (extant_bufs m ! j) a))"

section \<open>The cache allocator (class CacheAllocator)\<close>

text \<open>
  Sizes and addresses are natural numbers: \<open>size_t\<close> arithmetic is taken without
  overflow, so the model speaks about requests that \<open>round_up\<close> does not wrap.
  \<open>uintptr_t\<close> and \<open>uint\<close> are 32 bits wide, as on the platforms the file was written
  for (it casts \<open>size_t\<close> to \<open>uint\<close> and copies the \<open>uintptr_t\<close> bitmap into a \<open>uint\<close>).
\<close>

definition BUF_ALIGN :: nat where
  "BUF_ALIGN = 4 * 1024"

definition MAX_CACHE_SIZE :: nat where
  "MAX_CACHE_SIZE = 64 * 1024 * 1024"

subsection \<open>Collaborators declared outside the file\<close>

text \<open>
  Modelled from the spec: the arena (\<open>Pool\<close>, from lib/allocators.h), ``page-aligned
  bump allocator supplying the fixed backing region; offers create/alloc/contains/
  destroy''. \<open>da_base\<close> is where the region starts, \<open>da_cur_size\<close> how many bytes of it
  have been handed out (the source reads both fields), \<open>da_max_size\<close> its capacity.
  \<open>pool_alloc\<close> extends usage from the never-yet-allocated tail if capacity remains;
  \<open>pool_contains\<close> says whether an address lies within the arena.
\<close>

record Pool =
  da_base :: nat
  da_cur_size :: nat
  da_max_size :: nat

definition pool_create :: "nat \<Rightarrow> nat \<Rightarrow> Pool" where
  "pool_create base max_size = \<lparr>da_base = base, da_cur_size = 0, da_max_size = max_size\<rparr>"

definition pool_alloc :: "Pool \<Rightarrow> nat \<Rightarrow> (nat \<times> Pool) option" where
  "pool_alloc p sz =
     (if da_cur_size p + sz \<le> da_max_size p
      then Some (da_base p + da_cur_size p, p\<lparr>da_cur_size := da_cur_size p + sz\<rparr>)
      else None)"

definition pool_contains :: "Pool \<Rightarrow> nat \<Rightarrow> bool" where
  "pool_contains p el \<longleftrightarrow> da_base p \<le> el \<and> el < da_base p + da_max_size p"

definition pool_free_all :: "Pool \<Rightarrow> Pool" where
  "pool_free_all p = p\<lparr>da_cur_size := 0\<rparr>"

text \<open>
  Modelled from the spec: \<open>round_up\<close> (``all sizes are rounded up to a fixed quantum'')
  and the logarithm behind \<open>size_class_of\<close> (``size class = floor of log2 of the aligned
  size''), both from lib/lib.h.
\<close>

definition round_up :: "nat \<Rightarrow> nat \<Rightarrow> nat" where
  "round_up n multiple = ((n + multiple - 1) div multiple) * multiple"

fun log2 :: "nat \<Rightarrow> nat" where
  "log2 n = (if n < 2 then 0 else Suc (log2 (n div 2)))"

text \<open>
  The macros \<open>BIT\<close>, \<open>FOURCC\<close> and \<open>TEST\<close> are declared outside the file. \<open>BIT(n)\<close> is
  \<open>1 << n\<close>. \<open>FOURCC\<close> packs four characters into a \<open>u32\<close>, first character lowest;
  of the three constants built with it the proofs use only that they differ from one
  another, from 0 and from 0xEEEEEEEE. \<open>TEST(c)\<close> reports a failed check like
  \<open>debug_warn\<close> and continues.
\<close>

definition BIT :: "nat \<Rightarrow> 32 word" where
  "BIT n = push_bit n 1"

definition FOURCC :: "8 word \<Rightarrow> 8 word \<Rightarrow> 8 word \<Rightarrow> 8 word \<Rightarrow> 32 word" where
  "FOURCC a b c d = ucast a OR push_bit 8 (ucast b) OR push_bit 16 (ucast c) OR push_bit 24 (ucast d)"

definition HEADER_ID :: "32 word" where
  "HEADER_ID = FOURCC 0x43 0x4D 0x41 0x48"

definition FOOTER_ID :: "32 word" where
  "FOOTER_ID = FOURCC 0x43 0x4D 0x41 0x46"

definition MAGIC :: "32 word" where
  "MAGIC = FOURCC 0xFF 0x55 0xAA 0x01"

subsection \<open>State\<close>

text \<open>
  A \<open>Header*\<close> points either at a sentinel \<open>freelists[c]\<close> or at a header inside the
  arena; the null pointer is \<open>None\<close>. The \<open>next\<close> field only ever receives arena
  addresses or null, so it is an optional address.

  Arena memory is read and written only through a \<open>Header\<close> at the start of a region
  and a \<open>Footer\<close> at its end: \<open>mem_header a x\<close> is the memory at address \<open>x\<close> read as a
  \<open>Header\<close>, \<open>mem_footer a y\<close> the memory at \<open>y\<close> read as a \<open>Footer\<close>. Regions start
  and end at multiples of \<open>BUF_ALIGN\<close>, which is at least \<open>sizeof(Header) +
  sizeof(Footer)\<close> (the source's \<open>cassert\<close>), so no header shares bytes with a footer
  or with another header; what callers write into their buffers is not part of the
  model. Fresh pages read as zero.
\<close>

datatype hloc = Head nat | Node nat

record Header =
  h_prev :: "hloc option"
  h_next :: "nat option"
  h_size_pa :: nat
  h_id :: "32 word"
  h_magic :: "32 word"

record Footer =
  f_magic :: "32 word"
  f_id :: "32 word"
  f_size_pa :: nat

definition sizeof_Footer :: nat where
  "sizeof_Footer = 12"

record CacheAllocator =
  pool :: Pool
  bitmap :: "32 word"
  freelists :: "nat \<Rightarrow> Header"
  mem_header :: "nat \<Rightarrow> Header"
  mem_footer :: "nat \<Rightarrow> Footer"
  ca_warnings :: "diag list"

definition zero_Header :: Header where
  "zero_Header = \<lparr>h_prev = None, h_next = None, h_size_pa = 0, h_id = 0, h_magic = 0\<rparr>"

definition zero_Footer :: Footer where
  "zero_Footer = \<lparr>f_magic = 0, f_id = 0, f_size_pa = 0\<rparr>"

text \<open>\<open>memset(p, 0xEE, sizeof ...)\<close>: every field reads as a run of \<open>0xEE\<close> bytes.\<close>

definition wiped_Header :: Header where
  "wiped_Header = \<lparr>h_prev = Some (Node 0xEEEEEEEE), h_next = Some 0xEEEEEEEE,
                    h_size_pa = 0xEEEEEEEE, h_id = 0xEEEEEEEE, h_magic = 0xEEEEEEEE\<rparr>"

definition wiped_Footer :: Footer where
  "wiped_Footer = \<lparr>f_magic = 0xEEEEEEEE, f_id = 0xEEEEEEEE, f_size_pa = 0xEEEEEEEE\<rparr>"

definition CacheAllocator_ctor :: "nat \<Rightarrow> CacheAllocator" where
  "CacheAllocator_ctor base =
     \<lparr>pool = pool_create base MAX_CACHE_SIZE, bitmap = 0,
      freelists = (\<lambda>c. zero_Header),
      mem_header = (\<lambda>x. zero_Header), mem_footer = (\<lambda>y. zero_Footer),
      ca_warnings = []\<rparr>"

definition ca_warn :: "diag \<Rightarrow> CacheAllocator \<Rightarrow> CacheAllocator" where
  "ca_warn msg a = a\<lparr>ca_warnings := ca_warnings a @ [msg]\<rparr>"

definition ca_TEST :: "bool \<Rightarrow> diag \<Rightarrow> CacheAllocator \<Rightarrow> CacheAllocator" where
  "ca_TEST c msg a = (if c then a else ca_warn msg a)"

definition reset :: "CacheAllocator \<Rightarrow> CacheAllocator" where
  "reset a = a\<lparr>pool := pool_free_all (pool a), bitmap := 0, freelists := (\<lambda>c. zero_Header)\<rparr>"

definition size_class_of :: "nat \<Rightarrow> nat" where
  "size_class_of size_pa = log2 (size_pa mod 2 ^ 32)"

subsection \<open>Boundary tags\<close>

text \<open>
  \<open>is_valid_tag\<close> returns whether id and magic are those of the expected tag; its two
  \<open>TEST\<close>s, reached only then, are \<open>is_valid_tag_TESTs\<close>.
\<close>

definition is_valid_tag :: "32 word \<Rightarrow> 32 word \<Rightarrow> 32 word \<Rightarrow> nat \<Rightarrow> bool" where
  "is_valid_tag expected_id tid magic size_pa \<longleftrightarrow> \<not> (tid \<noteq> expected_id \<or> magic \<noteq> MAGIC)"

definition is_valid_tag_TESTs ::
    "32 word \<Rightarrow> 32 word \<Rightarrow> 32 word \<Rightarrow> nat \<Rightarrow> CacheAllocator \<Rightarrow> CacheAllocator" where
  "is_valid_tag_TESTs expected_id tid magic size_pa a =
     (if tid \<noteq> expected_id \<or> magic \<noteq> MAGIC then a
      else ca_TEST (size_pa \<le> MAX_CACHE_SIZE) ''TEST failed: size_pa <= MAX_CACHE_SIZE''
             (ca_TEST (size_pa mod BUF_ALIGN = 0) ''TEST failed: size_pa % BUF_ALIGN == 0'' a))"

subsection \<open>Freelists\<close>

definition get_hdr :: "CacheAllocator \<Rightarrow> hloc \<Rightarrow> Header" where
  "get_hdr a l = (case l of Head c \<Rightarrow> freelists a c | Node x \<Rightarrow> mem_header a x)"

definition set_hdr :: "hloc \<Rightarrow> Header \<Rightarrow> CacheAllocator \<Rightarrow> CacheAllocator" where
  "set_hdr l h a = (case l of Head c \<Rightarrow> a\<lparr>freelists := (freelists a)(c := h)\<rparr>
                            | Node x \<Rightarrow> a\<lparr>mem_header := (mem_header a)(x := h)\<rparr>)"

definition set_ftr :: "nat \<Rightarrow> Footer \<Rightarrow> CacheAllocator \<Rightarrow> CacheAllocator" where
  "set_ftr y f a = a\<lparr>mem_footer := (mem_footer a)(y := f)\<rparr>"

text \<open>
  The search of \<open>freelist_add\<close>:
  \<open>while(prev->next && header <= prev->next) prev = prev->next;\<close>
  It has no bound of its own, so it is a partial function: \<open>None\<close> is a walk that
  never ends.
\<close>

partial_function (option) find_insert_pos :: "CacheAllocator \<Rightarrow> nat \<Rightarrow> hloc \<Rightarrow> hloc option" where
  "find_insert_pos a header prev =
     (case h_next (get_hdr a prev) of
        None \<Rightarrow> Some prev
      | Some nx \<Rightarrow> if header \<le> nx then find_insert_pos a header (Node nx) else Some prev)"

definition freelist_add :: "CacheAllocator \<Rightarrow> nat \<Rightarrow> nat \<Rightarrow> CacheAllocator option" where
  "freelist_add a p size_pa =
     (let a1 = ca_TEST (size_pa mod BUF_ALIGN = 0) ''TEST failed: size_pa % BUF_ALIGN == 0'' a;
          size_cls = size_class_of size_pa;
          a2 = set_hdr (Node p)
                 ((get_hdr a1 (Node p))\<lparr>h_id := HEADER_ID, h_magic := MAGIC, h_size_pa := size_pa\<rparr>) a1;
          a3 = set_ftr (p + size_pa - sizeof_Footer)
                 \<lparr>f_magic = MAGIC, f_id = FOOTER_ID, f_size_pa = size_pa\<rparr> a2
      in do {
           prev \<leftarrow> find_insert_pos a3 p (Head size_cls);
           let nxt = h_next (get_hdr a3 prev);
           let a4 = set_hdr (Node p) ((get_hdr a3 (Node p))\<lparr>h_next := nxt, h_prev := Some prev\<rparr>) a3;
           let a5 = (case h_next (get_hdr a4 prev) of
                       Some n \<Rightarrow> set_hdr (Node n) ((get_hdr a4 (Node n))\<lparr>h_prev := Some (Node p)\<rparr>) a4
                     | None \<Rightarrow> a4);
           let a6 = set_hdr prev ((get_hdr a5 prev)\<lparr>h_next := Some p\<rparr>) a5;
           Some (a6\<lparr>bitmap := bitmap a6 OR BIT size_cls\<rparr>)
         })"

text \<open>
  \<open>freelist_remove\<close>. \<open>header->prev->next = ...\<close> dereferences \<open>header->prev\<close> unchecked;
  where that pointer is null the source's behaviour is undefined and the model skips
  the store.
\<close>

definition freelist_remove :: "CacheAllocator \<Rightarrow> nat \<Rightarrow> CacheAllocator" where
  "freelist_remove a header =
     (let h = mem_header a header;
          footer = header + h_size_pa h - sizeof_Footer;
          f = mem_footer a footer;
          a1 = is_valid_tag_TESTs HEADER_ID (h_id h) (h_magic h) (h_size_pa h) a;
          a2 = ca_TEST (is_valid_tag HEADER_ID (h_id h) (h_magic h) (h_size_pa h))
                 ''TEST failed: is_valid_tag(HEADER_ID, ...)'' a1;
          a3 = is_valid_tag_TESTs FOOTER_ID (f_id f) (f_magic f) (f_size_pa f) a2;
          a4 = ca_TEST (is_valid_tag FOOTER_ID (f_id f) (f_magic f) (f_size_pa f))
                 ''TEST failed: is_valid_tag(FOOTER_ID, ...)'' a3;
          a5 = ca_TEST (h_size_pa h = f_size_pa f) ''TEST failed: header->size_pa == footer->size_pa'' a4;
          size_cls = size_class_of (h_size_pa h);
          a6 = (case h_prev (get_hdr a5 (Node header)) of
                  Some pl \<Rightarrow> set_hdr pl ((get_hdr a5 pl)\<lparr>h_next := h_next (get_hdr a5 (Node header))\<rparr>) a5
                | None \<Rightarrow> a5);
          a7 = (case h_next (get_hdr a6 (Node header)) of
                  Some n \<Rightarrow> set_hdr (Node n) ((get_hdr a6 (Node n))\<lparr>h_prev := h_prev (get_hdr a6 (Node header))\<rparr>) a6
                | None \<Rightarrow> a6);
          a8 = (if h_next (get_hdr a7 (Head size_cls)) = None
                then a7\<lparr>bitmap := bitmap a7 AND NOT (BIT size_cls)\<rparr> else a7);
          a9 = set_hdr (Node header) wiped_Header a8
      in set_ftr footer wiped_Footer a9)"

text \<open>
  \<open>alloc_from_class\<close>: the loop \<open>for(cur = freelists[size_class].next; cur; cur = cur->next)\<close>
  from the node \<open>cur\<close> on. The result is the pointer returned (\<open>None\<close> is the null
  pointer) and the state; the outer \<open>option\<close> is \<open>None\<close> for a walk that never ends.
\<close>

partial_function (option) alloc_from_class_loop ::
    "CacheAllocator \<Rightarrow> nat option \<Rightarrow> nat \<Rightarrow> (nat option \<times> CacheAllocator) option" where
  "alloc_from_class_loop a cur size_pa =
     (case cur of
        None \<Rightarrow> Some (None, a)
      | Some c \<Rightarrow>
          if h_size_pa (mem_header a c) \<ge> size_pa
          then (let p = c;
                    remnant_pa = h_size_pa (mem_header a c) - size_pa;
                    a1 = freelist_remove a c
                in if remnant_pa \<noteq> 0
                   then do { a2 \<leftarrow> freelist_add a1 (p + size_pa) remnant_pa; Some (Some p, a2) }
                   else Some (Some p, a1))
          else alloc_from_class_loop a (h_next (mem_header a c)) size_pa)"

definition alloc_from_class ::
    "CacheAllocator \<Rightarrow> nat \<Rightarrow> nat \<Rightarrow> (nat option \<times> CacheAllocator) option" where
  "alloc_from_class a size_cls size_pa =
     alloc_from_class_loop a (h_next (freelists a size_cls)) size_pa"

text \<open>\<open>LS1(x)\<close> is \<open>x & -(int)x\<close>, the value of the lowest 1-bit.\<close>

definition LS1 :: "32 word \<Rightarrow> 32 word" where
  "LS1 x = x AND (- x)"

text \<open>
  The \<open>while(classes_left)\<close> loop of \<open>alloc_from_larger_class\<close>. It calls
  \<open>alloc_from_class\<close>, whose walk has no bound of its own, so the loop is a partial
  function as well.
\<close>

partial_function (option) larger_class_loop ::
    "CacheAllocator \<Rightarrow> 32 word \<Rightarrow> nat \<Rightarrow> (nat option \<times> CacheAllocator) option" where
  "larger_class_loop a classes_left size_pa =
     (if classes_left = 0 then Some (None, a)
      else do {
        let class_size = LS1 classes_left;
        let classes_left1 = classes_left AND NOT class_size;
        let size_cls = size_class_of (unat class_size);
        (p, a1) \<leftarrow> alloc_from_class a size_cls size_pa;
        (case p of
           Some q \<Rightarrow> Some (Some q, a1)
         | None \<Rightarrow> larger_class_loop a1 classes_left1 size_pa)
      })"

definition alloc_from_larger_class ::
    "CacheAllocator \<Rightarrow> nat \<Rightarrow> nat \<Rightarrow> (nat option \<times> CacheAllocator) option" where
  "alloc_from_larger_class a start_size_class size_pa =
     do {
       let classes_left = bitmap a AND push_bit start_size_class (- 1);
       (p, a1) \<leftarrow> larger_class_loop a classes_left size_pa;
       (case p of
          Some q \<Rightarrow> Some (Some q, a1)
        | None \<Rightarrow>
            Some (None, ca_TEST (bitmap a1 < BIT (start_size_class + 1))
                          ''TEST failed: bitmap < BIT(start_size_class+1)'' a1))
     }"

definition CacheAllocator_alloc ::
    "CacheAllocator \<Rightarrow> nat \<Rightarrow> (nat option \<times> CacheAllocator) option" where
  "CacheAllocator_alloc a size0 =
     (let sz = (if size0 = 0 then 1 else size0);
          size_pa = round_up sz BUF_ALIGN;
          size_cls = size_class_of size_pa
      in do {
           (p, a1) \<leftarrow> alloc_from_class a size_cls size_pa;
           (case p of
              Some q \<Rightarrow> Some (Some q, a1)
            | None \<Rightarrow>
                (case pool_alloc (pool a1) size_pa of
                   Some (q, pl) \<Rightarrow> Some (Some q, a1\<lparr>pool := pl\<rparr>)
                 | None \<Rightarrow> alloc_from_larger_class a1 size_cls size_pa))
         })"

text \<open>\<open>make_read_only\<close>: the \<open>mprotect\<close> call is commented out in the source.\<close>

definition make_read_only :: "CacheAllocator \<Rightarrow> nat \<Rightarrow> nat \<Rightarrow> CacheAllocator" where
  "make_read_only a p size0 = a"

text \<open>
  \<open>coalesce_and_free\<close>. The footer before \<open>p\<close> and the header after the region are read
  before \<open>freelist_remove\<close> wipes them, as in the source.
\<close>

definition coalesce_and_free :: "CacheAllocator \<Rightarrow> nat \<Rightarrow> nat \<Rightarrow> CacheAllocator option" where
  "coalesce_and_free a p size_pa =
     (let (a1, p1, s1) =
            (if p \<noteq> da_base (pool a)
             then (let footer = mem_footer a (p - sizeof_Footer);
                       at = is_valid_tag_TESTs FOOTER_ID (f_id footer) (f_magic footer) (f_size_pa footer) a
                   in if is_valid_tag FOOTER_ID (f_id footer) (f_magic footer) (f_size_pa footer)
                      then (freelist_remove at (p - f_size_pa footer),
                            p - f_size_pa footer, size_pa + f_size_pa footer)
                      else (at, p, size_pa))
             else (a, p, size_pa));
          header = p1 + s1;
          (a2, s2) =
            (if header < da_base (pool a1) + da_cur_size (pool a1)
             then (let h = mem_header a1 header;
                       at = is_valid_tag_TESTs HEADER_ID (h_id h) (h_magic h) (h_size_pa h) a1
                   in if is_valid_tag HEADER_ID (h_id h) (h_magic h) (h_size_pa h)
                      then (freelist_remove at header, s1 + h_size_pa h)
                      else (at, s1))
             else (a1, s1))
      in freelist_add a2 p1 s2)"

definition CacheAllocator_free :: "CacheAllocator \<Rightarrow> nat \<Rightarrow> nat \<Rightarrow> CacheAllocator option" where
  "CacheAllocator_free a p size0 =
     (let size_pa = round_up size0 BUF_ALIGN
      in if \<not> pool_contains (pool a) p \<or> \<not> pool_contains (pool a) (p + size_pa - 1)
         then Some (ca_warn ''invalid pointer'' a)
         else coalesce_and_free a p size_pa)"

subsection \<open>Properties of the allocator\<close>

text \<open>
  What the allocator reads of its memory: the \<open>next\<close> link of a sentinel or node, the
  \<open>prev\<close> link of a node, the size in a header, and whether the memory at an address
  passes \<open>is_valid_tag\<close> as a header or as a footer.
\<close>

definition nxt :: "CacheAllocator \<Rightarrow> hloc \<Rightarrow> nat option" where
  "nxt a l = h_next (get_hdr a l)"

definition prv :: "CacheAllocator \<Rightarrow> nat \<Rightarrow> hloc option" where
  "prv a x = h_prev (mem_header a x)"

definition hsz :: "CacheAllocator \<Rightarrow> nat \<Rightarrow> nat" where
  "hsz a x = h_size_pa (mem_header a x)"

definition hvalid :: "CacheAllocator \<Rightarrow> nat \<Rightarrow> bool" where
  "hvalid a x \<longleftrightarrow>
     is_valid_tag HEADER_ID (h_id (mem_header a x)) (h_magic (mem_header a x)) (h_size_pa (mem_header a x))"

definition fvalid :: "CacheAllocator \<Rightarrow> nat \<Rightarrow> bool" where
  "fvalid a y \<longleftrightarrow>
     is_valid_tag FOOTER_ID (f_id (mem_footer a y)) (f_magic (mem_footer a y)) (f_size_pa (mem_footer a y))"

text \<open>
  A doubly linked segment: following \<open>next\<close> from the location \<open>pr\<close> visits exactly the
  nodes \<open>xs\<close>, in this order, each pointing back to its predecessor with \<open>prev\<close>, and the
  last \<open>next\<close> link is \<open>q\<close>. A list is a segment that ends with the null pointer.
\<close>

fun dseg :: "(hloc \<Rightarrow> nat option) \<Rightarrow> (nat \<Rightarrow> hloc option) \<Rightarrow> hloc \<Rightarrow> nat list \<Rightarrow> nat option \<Rightarrow> bool" where
  "dseg n p pr [] q \<longleftrightarrow> n pr = q"
| "dseg n p pr (x # xs) q \<longleftrightarrow> n pr = Some x \<and> p x = Some pr \<and> dseg n p (Node x) xs q"

definition freelist :: "CacheAllocator \<Rightarrow> nat \<Rightarrow> nat list \<Rightarrow> bool" where
  "freelist a c xs \<longleftrightarrow> dseg (nxt a) (prv a) (Head c) xs None"


text \<open>Insertion into a list in descending order, after every element that is not smaller.\<close>

fun insert_desc :: "nat \<Rightarrow> nat list \<Rightarrow> nat list" where
  "insert_desc p [] = [p]"
| "insert_desc p (x # xs) = (if p \<le> x then x # insert_desc p xs else p # x # xs)"



text \<open>
  A free region as the allocator keeps it: a valid header at its start \<open>x\<close>, at its end
  a footer that carries the same size, the size positive and a multiple of
  \<open>BUF_ALIGN\<close>, the node on the freelist of the class of its size, and the region
  inside the part of the arena handed out so far.
\<close>

definition node_ok :: "CacheAllocator \<Rightarrow> nat \<Rightarrow> nat \<Rightarrow> bool" where
  "node_ok a c x \<longleftrightarrow>
     hvalid a x \<and>
     mem_footer a (x + hsz a x - sizeof_Footer) = \<lparr>f_magic = MAGIC, f_id = FOOTER_ID, f_size_pa = hsz a x\<rparr> \<and>
     size_class_of (hsz a x) = c \<and> 0 < hsz a x \<and> BUF_ALIGN dvd hsz a x \<and>
     da_base (pool a) \<le> x \<and> x + hsz a x \<le> da_base (pool a) + da_cur_size (pool a)"

text \<open>Two regions, each given by start and size, that do not overlap.\<close>

definition apart :: "nat \<Rightarrow> nat \<Rightarrow> nat \<Rightarrow> nat \<Rightarrow> bool" where
  "apart x sx y sy \<longleftrightarrow> x + sx \<le> y \<or> y + sy \<le> x"

text \<open>
  The invariant of the freelists, for the lists \<open>L c\<close> of the classes \<open>c\<close>: every class
  has its list, in strictly descending address order; the nodes are free regions as
  above, no two of them overlap; and a header or footer that passes \<open>is_valid_tag\<close>
  belongs to a node on a list.
\<close>

definition free_inv :: "CacheAllocator \<Rightarrow> (nat \<Rightarrow> nat list) \<Rightarrow> bool" where
  "free_inv a L \<longleftrightarrow>
     (\<forall>c. freelist a c (L c) \<and> sorted_wrt (>) (L c) \<and> (\<forall>x \<in> set (L c). node_ok a c x)) \<and>
     (\<forall>c c'. \<forall>x \<in> set (L c). \<forall>y \<in> set (L c'). x \<noteq> y \<longrightarrow> apart x (hsz a x) y (hsz a y)) \<and>
     (\<forall>y. hvalid a y \<longrightarrow> (\<exists>c. y \<in> set (L c))) \<and>
     (\<forall>q. fvalid a q \<longrightarrow> (\<exists>c. \<exists>x \<in> set (L c). q = x + hsz a x - sizeof_Footer))"

text \<open>
  Trying the classes of a list in turn, with \<open>alloc_from_class\<close>, until one yields a
  region.
\<close>

fun try_classes :: "CacheAllocator \<Rightarrow> nat list \<Rightarrow> nat \<Rightarrow> (nat option \<times> CacheAllocator) option" where
  "try_classes a [] size_pa = Some (None, a)"
| "try_classes a (c # cs) size_pa =
     do {
       (p, a1) \<leftarrow> alloc_from_class a c size_pa;
       (case p of
          Some q \<Rightarrow> Some (Some q, a1)
        | None \<Rightarrow> try_classes a1 cs size_pa)
     }"


text \<open>
  The ghost state of the proofs about the allocator: the freelists \<open>L\<close> and the set \<open>R\<close> of
  the regions (start, size) handed out and not yet freed. \<open>nodes L\<close> are the starts of the
  free regions.
\<close>

definition nodes :: "(nat \<Rightarrow> nat list) \<Rightarrow> nat set" where
  "nodes L = (\<Union>c. set (L c))"

definition hole :: "CacheAllocator \<Rightarrow> (nat \<Rightarrow> nat list) \<Rightarrow> (nat \<times> nat) set \<Rightarrow> nat \<Rightarrow> nat \<Rightarrow> bool" where
  "hole a L R p s \<longleftrightarrow>
     0 < s \<and> BUF_ALIGN dvd s \<and>
     da_base (pool a) \<le> p \<and> p + s \<le> da_base (pool a) + da_cur_size (pool a) \<and>
     (\<forall>y \<in> nodes L. apart p s y (hsz a y)) \<and>
     (\<forall>(q, t) \<in> R. apart p s q t)"

definition ca_inv :: "CacheAllocator \<Rightarrow> (nat \<Rightarrow> nat list) \<Rightarrow> (nat \<times> nat) set \<Rightarrow> bool" where
  "ca_inv a L R \<longleftrightarrow>
     free_inv a L \<and> da_cur_size (pool a) \<le> da_max_size (pool a) \<and>
     (\<forall>(p, s) \<in> R. hole a L (R - {(p, s)}) p s)"



definition drop_node :: "(nat \<Rightarrow> nat list) \<Rightarrow> nat \<Rightarrow> nat \<Rightarrow> (nat \<Rightarrow> nat list)" where
  "drop_node L c x = L(c := remove1 x (L c))"




text \<open>
  Sequences of calls. An \<open>alloc\<close> records the address it returns with the size asked
  for; a \<open>free\<close> strikes the pair off. Proper use asks for at least one byte and frees
  only what is outstanding, with the size it was asked with.
\<close>

datatype ca_op = CA_alloc nat | CA_free nat nat

type_synonym ca_state = "CacheAllocator \<times> (nat \<times> nat) list"

fun ca_step :: "ca_state \<Rightarrow> ca_op \<Rightarrow> ca_state option" where
  "ca_step (a, outs) (CA_alloc size0) =
     do {
       (r, a1) \<leftarrow> CacheAllocator_alloc a size0;
       Some (a1, case r of Some p \<Rightarrow> (p, size0) # outs | None \<Rightarrow> outs)
     }"
| "ca_step (a, outs) (CA_free p size0) =
     do {
       a1 \<leftarrow> CacheAllocator_free a p size0;
       Some (a1, remove1 (p, size0) outs)
     }"

fun ca_run :: "ca_state \<Rightarrow> ca_op list \<Rightarrow> ca_state option" where
  "ca_run st [] = Some st"
| "ca_run st (opn # ops) = do { st1 \<leftarrow> ca_step st opn; ca_run st1 ops }"













section \<open>The file cache and the functions that coordinate the parts\<close>

subsection \<open>The cost-based cache, declared outside the file\<close>

text \<open>
  Modelled from the spec: the file cache (\<open>Cache\<close>, from lib/adts.h), which ``maps file
  identity to a cached buffer with a replacement cost'', ``at most one per identity'',
  with \<open>add(key, value, size, cost)\<close>, \<open>retrieve(key) -> (value, size, hit)\<close>,
  \<open>remove(key)\<close>, \<open>remove_least_valuable() -> (value, size, found)\<close> and \<open>empty()\<close>.
  The spec leaves the order of eviction to the collaborator and only asks that it can
  always evict some entry when non-empty: here the entry of least cost goes, the
  oldest among equals.
\<close>

record CacheEntry =
  ce_key :: nat
  ce_item :: nat
  ce_size :: nat
  ce_cost :: nat

type_synonym Cache = "CacheEntry list"

definition Cache_add :: "Cache \<Rightarrow> nat \<Rightarrow> nat \<Rightarrow> nat \<Rightarrow> nat \<Rightarrow> Cache" where
  "Cache_add c key item sz cost =
     filter (\<lambda>e. ce_key e \<noteq> key) c @ [\<lparr>ce_key = key, ce_item = item, ce_size = sz, ce_cost = cost\<rparr>]"

definition Cache_retrieve :: "Cache \<Rightarrow> nat \<Rightarrow> (nat \<times> nat) option" where
  "Cache_retrieve c key =
     (case List.find (\<lambda>e. ce_key e = key) c of
        Some e \<Rightarrow> Some (ce_item e, ce_size e)
      | None \<Rightarrow> None)"

definition Cache_remove :: "Cache \<Rightarrow> nat \<Rightarrow> Cache" where
  "Cache_remove c key = filter (\<lambda>e. ce_key e \<noteq> key) c"

definition Cache_empty :: "Cache \<Rightarrow> bool" where
  "Cache_empty c \<longleftrightarrow> c = []"

fun least_valuable :: "Cache \<Rightarrow> CacheEntry option" where
  "least_valuable [] = None"
| "least_valuable (e # es) =
     (case least_valuable es of
        None \<Rightarrow> Some e
      | Some m \<Rightarrow> if ce_cost e \<le> ce_cost m then Some e else Some m)"

definition remove_least_valuable :: "Cache \<Rightarrow> ((nat \<times> nat) \<times> Cache) option" where
  "remove_least_valuable c =
     (case least_valuable c of
        None \<Rightarrow> None
      | Some e \<Rightarrow> Some ((ce_item e, ce_size e), remove1 e c))"

subsection \<open>The process-wide objects\<close>

datatype LibError = ERR_OK | ERR_NO_MEM | ERR_INVALID_PARAM

record Globals =
  block_mgr :: BlockMgr
  cache_allocator :: CacheAllocator
  extant :: ExtantBufMgr
  file_cache :: Cache
  fc_warnings :: "diag list"

definition Globals_ctor :: "int \<Rightarrow> nat \<Rightarrow> nat \<Rightarrow> Globals" where
  "Globals_ctor FILE_BLOCK_SIZE block_pool_base arena_base =
     \<lparr>block_mgr = BlockMgr_ctor FILE_BLOCK_SIZE block_pool_base,
      cache_allocator = CacheAllocator_ctor arena_base,
      extant = ExtantBufMgr_ctor,
      file_cache = [],
      fc_warnings = []\<rparr>"

definition fc_warn :: "diag \<Rightarrow> Globals \<Rightarrow> Globals" where
  "fc_warn msg g = g\<lparr>fc_warnings := fc_warnings g @ [msg]\<rparr>"

subsection \<open>file_buf_alloc\<close>

text \<open>
  The \<open>for(;;)\<close> loop of \<open>file_buf_alloc\<close>, with the counter \<open>attempts\<close> (a \<open>uint\<close>).
  It is left only by the \<open>break\<close> after a successful \<open>alloc\<close>; the check
  \<open>attempts++ > 50\<close> reports and goes round again. When the cache is empty
  \<open>remove_least_valuable\<close> returns false without writing \<open>discarded_buf\<close> and \<open>size\<close>,
  which are uninitialised locals: \<open>junk\<close> stands for the values they then hold.
\<close>

partial_function (option) file_buf_alloc_loop ::
    "nat \<times> nat \<Rightarrow> nat \<Rightarrow> Globals \<Rightarrow> 32 word \<Rightarrow> (nat \<times> Globals) option" where
  "file_buf_alloc_loop junk size0 g attempts =
     do {
       (r, ca) \<leftarrow> CacheAllocator_alloc (cache_allocator g) size0;
       (case r of
          Some buf \<Rightarrow> Some (buf, g\<lparr>cache_allocator := ca\<rparr>)
        | None \<Rightarrow>
            do {
              let (removed, discarded, fc) =
                    (case remove_least_valuable (file_cache g) of
                       Some (d, fc1) \<Rightarrow> (True, d, fc1)
                     | None \<Rightarrow> (False, junk, file_cache g));
              let g1 = (if removed then g else fc_warn ''TEST failed: removed'' g);
              ca1 \<leftarrow> CacheAllocator_free ca (fst discarded) (snd discarded);
              let g2 = g1\<lparr>cache_allocator := ca1, file_cache := fc\<rparr>;
              let g3 = (if attempts > 50
                        then fc_warn ''possible infinite loop: failed to make room in cache'' g2
                        else g2);
              file_buf_alloc_loop junk size0 g3 (attempts + 1)
            })
     }"

definition file_buf_alloc ::
    "nat \<times> nat \<Rightarrow> Globals \<Rightarrow> nat \<Rightarrow> nat \<Rightarrow> bool \<Rightarrow> (nat \<times> Globals) option" where
  "file_buf_alloc junk g size0 fn long_lived =
     do {
       (buf, g1) \<leftarrow> file_buf_alloc_loop junk size0 g 0;
       Some (buf, g1\<lparr>extant := ExtantBufMgr_add (extant g1) buf size0 fn long_lived\<rparr>)
     }"

subsection \<open>file_buf_free\<close>

definition file_buf_free :: "Globals \<Rightarrow> nat \<Rightarrow> (LibError \<times> Globals) option" where
  "file_buf_free g buf =
     (if buf = 0 then Some (ERR_OK, g)
      else
        (let (r, m1) = find_and_remove (extant g) buf;
             g1 = g\<lparr>extant := m1\<rparr>
         in case r of
              (True, Some (exact_buf, actual_size, fn)) \<Rightarrow>
                (case Cache_retrieve (file_cache g1) fn of
                   Some (buf_in_cache, sz) \<Rightarrow>
                     Some (ERR_OK, if buf_in_cache = buf then g1
                                   else fc_warn ''assertion failed: buf_in_cache == buf'' g1)
                 | None \<Rightarrow>
                     do {
                       ca \<leftarrow> CacheAllocator_free (cache_allocator g1) exact_buf actual_size;
                       Some (ERR_OK, g1\<lparr>cache_allocator := ca\<rparr>)
                     })
            | _ \<Rightarrow> Some (ERR_OK, g1)))"

subsection \<open>The other entry points\<close>

definition file_buf_set_real_fn :: "Globals \<Rightarrow> nat \<Rightarrow> nat \<Rightarrow> LibError \<times> Globals" where
  "file_buf_set_real_fn g buf fn = (ERR_OK, g\<lparr>extant := replace_owner (extant g) buf fn\<rparr>)"

definition file_cache_add :: "Globals \<Rightarrow> nat \<Rightarrow> nat \<Rightarrow> nat \<Rightarrow> LibError \<times> Globals" where
  "file_cache_add g buf sz fn =
     (let cost = 1;
          ca = (if buf \<noteq> 0 then make_read_only (cache_allocator g) buf sz else cache_allocator g)
      in (ERR_OK, g\<lparr>cache_allocator := ca, file_cache := Cache_add (file_cache g) fn buf sz cost\<rparr>))"

definition file_cache_find :: "Globals \<Rightarrow> nat \<Rightarrow> (nat \<times> nat) option" where
  "file_cache_find g fn =
     (case Cache_retrieve (file_cache g) fn of
        Some (buf, sz) \<Rightarrow> if buf = 0 then None else Some (buf, sz)
      | None \<Rightarrow> None)"

definition file_cache_retrieve :: "Globals \<Rightarrow> nat \<Rightarrow> (nat \<times> nat) option \<times> Globals" where
  "file_cache_retrieve g fn =
     (case file_cache_find g fn of
        Some (buf, sz) \<Rightarrow> (Some (buf, sz), g\<lparr>extant := add_ref (extant g) buf sz fn\<rparr>)
      | None \<Rightarrow> (None, g))"

subsection \<open>Properties of the coordinating functions\<close>

text \<open>
  An allocator that cannot serve a request of \<open>size0\<close> bytes: every freelist is empty
  and the arena has less room left than the rounded size.
\<close>

definition arena_exhausted :: "CacheAllocator \<Rightarrow> nat \<Rightarrow> bool" where
  "arena_exhausted a size0 \<longleftrightarrow>
     bitmap a = 0 \<and> (\<forall>c. h_next (freelists a c) = None) \<and>
     da_max_size (pool a) < da_cur_size (pool a) + round_up (if size0 = 0 then 1 else size0) BUF_ALIGN"

text \<open>
  The globals in which \<open>file_buf_alloc\<close> cannot make room: the file cache is empty, the
  allocator cannot serve the request, and the uninitialised \<open>discarded_buf\<close> lies
  outside the arena.
\<close>

definition stuck :: "nat \<times> nat \<Rightarrow> nat \<Rightarrow> Globals \<Rightarrow> bool" where
  "stuck junk size0 g \<longleftrightarrow>
     file_cache g = [] \<and> arena_exhausted (cache_allocator g) size0 \<and>
     \<not> pool_contains (pool (cache_allocator g)) (fst junk)"


text \<open>
  A scenario for \<open>file_buf_free\<close>. On fresh globals two buffers of one page each are
  allocated for the file 7 (\<open>demo_g1\<close>, then \<open>demo_g2\<close>), and the first of them is put
  into the file cache (\<open>demo_g3\<close>).
\<close>

definition demo_globals :: Globals where
  "demo_globals = Globals_ctor 65536 4096 16777216"

definition demo_g1 :: Globals where
  "demo_g1 = demo_globals
     \<lparr>cache_allocator := (cache_allocator demo_globals)
        \<lparr>pool := \<lparr>da_base = 16777216, da_cur_size = 4096, da_max_size = MAX_CACHE_SIZE\<rparr>\<rparr>,
      extant := \<lparr>extant_bufs =
                   [\<lparr>eb_buf = 16777216, eb_size = 4096, eb_atom_fn = 7, eb_refs = 1, eb_epoch = 1\<rparr>],
                 epoch = 2, eb_warnings = []\<rparr>\<rparr>"

definition demo_g2 :: Globals where
  "demo_g2 = demo_globals
     \<lparr>cache_allocator := (cache_allocator demo_globals)
        \<lparr>pool := \<lparr>da_base = 16777216, da_cur_size = 8192, da_max_size = MAX_CACHE_SIZE\<rparr>\<rparr>,
      extant := \<lparr>extant_bufs =
                   [\<lparr>eb_buf = 16777216, eb_size = 4096, eb_atom_fn = 7, eb_refs = 1, eb_epoch = 1\<rparr>,
                    \<lparr>eb_buf = 16781312, eb_size = 4096, eb_atom_fn = 7, eb_refs = 1, eb_epoch = 2\<rparr>],
                 epoch = 3, eb_warnings = []\<rparr>\<rparr>"

definition demo_g3 :: Globals where
  "demo_g3 = demo_g2
     \<lparr>file_cache := [\<lparr>ce_key = 7, ce_item = 16777216, ce_size = 4096, ce_cost = 1\<rparr>]\<rparr>"
section \<open>Block cache: proofs\<close>

lemma find_upt_Suc:
  "List.find P [0..<Suc n] = (if P 0 then Some 0 else map_option Suc (List.find (\<lambda>k. P (Suc k)) [0..<n]))"
proof -
  have m: "List.find P (map Suc xs) = map_option Suc (List.find (\<lambda>k. P (Suc k)) xs)" for xs
    by (induction xs) auto
  have "[0..<Suc n] = 0 # map Suc [0..<n]"
    by (simp add: upt_conv_Cons map_Suc_upt del: upt_Suc)
  then show ?thesis using m by (simp del: upt_Suc)
qed

lemma bm_warn_fields [simp]:
  "blocks (bm_warn m bm) = blocks bm" "oldest_block (bm_warn m bm) = oldest_block bm"
  by (simp_all add: bm_warn_def)

lemma alloc_scan_char:
  assumes "oldest_block bm < MAX_BLOCKS"
  shows "blocks (snd (alloc_scan n bm)) = blocks bm \<and>
    (case List.find (\<lambda>k. reusable (blocks bm ! ring_slot bm k)) [0..<n] of
       None \<Rightarrow> fst (alloc_scan n bm) = None \<and> oldest_block (snd (alloc_scan n bm)) = ring_slot bm n
     | Some k \<Rightarrow> fst (alloc_scan n bm) = Some (ring_slot bm k) \<and>
           oldest_block (snd (alloc_scan n bm)) = ring_slot bm (Suc k))"
  using assms
proof (induction n arbitrary: bm)
  case 0
  then show ?case by (simp add: ring_slot_def)
next
  case (Suc n)
  let ?bm1 = "bm\<lparr>oldest_block := (oldest_block bm + 1) mod MAX_BLOCKS\<rparr>"
  have lt: "oldest_block ?bm1 < MAX_BLOCKS" by (simp add: MAX_BLOCKS_def)
  have shift: "ring_slot ?bm1 k = ring_slot bm (Suc k)" for k
    by (simp add: ring_slot_def mod_add_left_eq)
  have shiftw: "ring_slot (bm_warn m ?bm1) k = ring_slot bm (Suc k)" for k m
    by (simp add: ring_slot_def mod_add_left_eq)
  have zero: "ring_slot bm 0 = oldest_block bm"
    using Suc.prems by (simp add: ring_slot_def)
  note ih1 = Suc.IH [OF lt]
  have ltw: "oldest_block (bm_warn m ?bm1) < MAX_BLOCKS" for m by (simp add: MAX_BLOCKS_def)
  note ih2 = Suc.IH [OF ltw]
  have res: "alloc_scan (Suc n) bm =
      (if reusable (blocks bm ! ring_slot bm 0) then (Some (ring_slot bm 0), ?bm1)
       else if b_status (blocks bm ! oldest_block bm) = BS_COMPLETE \<and> b_refs (blocks bm ! oldest_block bm) > 0
            then alloc_scan n ?bm1
            else alloc_scan n (bm_warn ''status and/or refs have unexpected values'' ?bm1))"
    by (simp add: Let_def reusable_def zero)
  have one: "Suc (oldest_block bm) mod MAX_BLOCKS = ring_slot bm (Suc 0)"
    by (simp add: ring_slot_def)
  show ?case
  proof (cases "reusable (blocks bm ! ring_slot bm 0)")
    case True
    then show ?thesis
      unfolding res find_upt_Suc by (simp add: one)
  next
    case False
    show ?thesis
    proof (cases "b_status (blocks bm ! oldest_block bm) = BS_COMPLETE \<and> b_refs (blocks bm ! oldest_block bm) > 0")
      case True
      have r: "alloc_scan (Suc n) bm = alloc_scan n ?bm1"
        unfolding res using False True by simp
      from False ih1 show ?thesis
        unfolding r find_upt_Suc shift by (simp split: option.splits)
    next
      case c: False
      have r: "alloc_scan (Suc n) bm = alloc_scan n (bm_warn ''status and/or refs have unexpected values'' ?bm1)"
        unfolding res using False c by auto
      from False ih2 [of "''status and/or refs have unexpected values''"] show ?thesis
        unfolding r find_upt_Suc shiftw by (simp split: option.splits)
    qed
  qed
qed

lemma foldl_warn_fields:
  "blocks (foldl (\<lambda>s b. if P b then bm_warn m s else s) bm xs) = blocks bm \<and>
   oldest_block (foldl (\<lambda>s b. if P b then bm_warn m s else s) bm xs) = oldest_block bm"
  by (induction xs arbitrary: bm) auto

text \<open>
  Claim C6. \<open>BlockMgr::alloc\<close> inspects the ring from the cursor \<open>oldest_block\<close> on, one
  slot per step, the cursor moving past every slot it inspects. Let \<open>k\<close> be the first
  offset, below 32, whose slot is neither pending nor referenced (\<open>reusable\<close>). Then
  that slot and no other is overwritten with the new id and marked pending, its memory
  is returned and the cursor ends one past it: every slot before it, among them a
  complete slot that is still referenced, keeps its content. When no offset below 32
  qualifies, the call returns null, reports ``all blocks are locked'', no slot is
  changed and the cursor is back where it started.
\<close>

theorem BlockMgr_alloc_ring_scan:
  assumes "length (blocks bm) = MAX_BLOCKS" and "oldest_block bm < MAX_BLOCKS"
  shows "case List.find (\<lambda>k. reusable (blocks bm ! ring_slot bm k)) [0..<MAX_BLOCKS] of
       None \<Rightarrow>
         fst (BlockMgr_alloc bm bid) = None \<and>
         blocks (snd (BlockMgr_alloc bm bid)) = blocks bm \<and>
         oldest_block (snd (BlockMgr_alloc bm bid)) = oldest_block bm \<and>
         last (bm_warnings (snd (BlockMgr_alloc bm bid))) = ''all blocks are locked''
     | Some k \<Rightarrow>
         fst (BlockMgr_alloc bm bid) = Some (b_mem (blocks bm ! ring_slot bm k)) \<and>
         blocks (snd (BlockMgr_alloc bm bid)) =
           (blocks bm)[ring_slot bm k :=
              (blocks bm ! ring_slot bm k)\<lparr>b_id := bid, b_status := BS_PENDING\<rparr>] \<and>
         oldest_block (snd (BlockMgr_alloc bm bid)) = ring_slot bm (k + 1)"
proof -
  define bm1 where "bm1 = foldl (\<lambda>s b. if block_eq (b_id b) bid
                               then bm_warn ''allocating block that is already in list'' s
                               else s) bm (blocks bm)"
  have f: "blocks bm1 = blocks bm" "oldest_block bm1 = oldest_block bm"
    unfolding bm1_def using foldl_warn_fields [of "\<lambda>b. block_eq (b_id b) bid" _ bm "blocks bm"] by simp_all
  have rs: "ring_slot bm1 k = ring_slot bm k" for k
    by (simp add: ring_slot_def f)
  have lt: "oldest_block bm1 < MAX_BLOCKS" using assms f by simp
  have full: "ring_slot bm MAX_BLOCKS = oldest_block bm"
    using assms by (simp add: ring_slot_def)
  have A: "BlockMgr_alloc bm bid = (case alloc_scan MAX_BLOCKS bm1 of
           (None, bm2) \<Rightarrow> (None, bm_warn ''all blocks are locked'' bm2)
         | (Some i, bm2) \<Rightarrow>
             (Some (b_mem (blocks bm2 ! i)),
              bm2\<lparr>blocks := (blocks bm2)[i := (blocks bm2 ! i)\<lparr>b_id := bid, b_status := BS_PENDING\<rparr>]\<rparr>))"
    by (simp add: BlockMgr_alloc_def bm1_def Let_def)
  obtain r bm2 where sc: "alloc_scan MAX_BLOCKS bm1 = (r, bm2)" by (cases "alloc_scan MAX_BLOCKS bm1")
  from alloc_scan_char [OF lt, of MAX_BLOCKS] show ?thesis
    unfolding A sc rs f
    by (cases r) (auto simp add: full bm_warn_def split: option.splits)
qed

lemma alloc_scan_pos:
  "0 < n \<Longrightarrow> alloc_scan n bm =
     (let i = oldest_block bm;
          b = blocks bm ! i;
          bm1 = bm\<lparr>oldest_block := (i + 1) mod MAX_BLOCKS\<rparr>
      in if b_status b \<noteq> BS_PENDING \<and> b_refs b = 0 then (Some i, bm1)
         else if b_status b = BS_COMPLETE \<and> b_refs b > 0 then alloc_scan (n - 1) bm1
         else alloc_scan (n - 1) (bm_warn ''status and/or refs have unexpected values'' bm1))"
  by (cases n) (simp_all add: Let_def)


lemmas bm_eval = BlockMgr_ctor_def Block_ctor_def block_cache_make_id_def
        BlockMgr_alloc_def MAX_BLOCKS_def upt_conv_Cons Let_def bm_warn_def block_eq_def demo_id_def
        mark_completed_def BlockMgr_find_def BlockMgr_release_def BlockMgr_invalidate_def
        invalidate_block_def alloc_scan_pos

text \<open>
  Witness for C6: slot 0 is the oldest but complete and referenced once; the call skips
  it and reuses slot 1, and the cursor ends at 2.
\<close>

theorem BlockMgr_alloc_ring_scan_witness:
  "length (blocks demo_locked_ring) = MAX_BLOCKS \<and> oldest_block demo_locked_ring < MAX_BLOCKS \<and>
   fst (BlockMgr_alloc demo_locked_ring (demo_id 32)) = Some (4096 + 65536) \<and>
   b_id (blocks (snd (BlockMgr_alloc demo_locked_ring (demo_id 32))) ! 0) = demo_id 0 \<and>
   b_id (blocks (snd (BlockMgr_alloc demo_locked_ring (demo_id 32))) ! 1) = demo_id 32 \<and>
   oldest_block (snd (BlockMgr_alloc demo_locked_ring (demo_id 32))) = 2"
proof -
  have h1: "length (blocks demo_locked_ring) = MAX_BLOCKS"
    by (simp add: demo_locked_ring_def MAX_BLOCKS_def)
  have h2: "oldest_block demo_locked_ring < MAX_BLOCKS"
    by (simp add: demo_locked_ring_def MAX_BLOCKS_def)
  have f: "List.find (\<lambda>k. reusable (blocks demo_locked_ring ! ring_slot demo_locked_ring k)) [0..<MAX_BLOCKS] = Some 1"
    by (simp add: demo_locked_ring_def MAX_BLOCKS_def ring_slot_def reusable_def upt_conv_Cons)
  have s1: "ring_slot demo_locked_ring 1 = 1" "ring_slot demo_locked_ring (1 + 1) = 2"
    by (simp_all add: demo_locked_ring_def MAX_BLOCKS_def ring_slot_def)
  have b: "blocks demo_locked_ring ! Suc 0 = \<lparr>b_id = demo_id 1, b_mem = 4096 + 65536, b_status = BS_COMPLETE, b_refs = 0\<rparr>"
    "b_id (blocks demo_locked_ring ! 0) = demo_id 0"
    by (simp_all add: demo_locked_ring_def upt_conv_Cons)
  have "fst (BlockMgr_alloc demo_locked_ring (demo_id 32)) = Some (b_mem (blocks demo_locked_ring ! 1)) \<and>
         blocks (snd (BlockMgr_alloc demo_locked_ring (demo_id 32))) =
           (blocks demo_locked_ring)[1 := (blocks demo_locked_ring ! 1)\<lparr>b_id := demo_id 32, b_status := BS_PENDING\<rparr>] \<and>
         oldest_block (snd (BlockMgr_alloc demo_locked_ring (demo_id 32))) = 2"
    using BlockMgr_alloc_ring_scan [OF h1 h2, of "demo_id 32"]
    unfolding f option.case s1 .
  with h1 h2 show ?thesis
    by (simp add: b MAX_BLOCKS_def)
qed

text \<open>
  Claim C8. The code does not keep the ids of its live slots apart. \<open>invalidate\<close> leaves
  the id in the slot it invalidates, and \<open>mark_completed\<close> takes the first slot with the
  id whatever its status. When a block is loaded again after its file was invalidated
  (every slot invalid and unreferenced at that point, so the second \<open>alloc\<close> is no usage
  error), \<open>alloc\<close> warns and hands out the next slot of the ring, and \<open>mark_completed\<close>
  finds the old slot first: its \<open>debug_assert(b->status == BS_PENDING)\<close> fails, the old slot
  becomes complete again, and the new slot stays pending. Two live slots hold the id.
\<close>

theorem BlockMgr_reload_duplicates_id:
  "list_all (\<lambda>b. b_status b = BS_INVALID \<and> b_refs b = 0)
     (blocks (bm_run demo_mgr [OpAlloc (demo_id 5), OpMarkCompleted (demo_id 5), OpInvalidate 7])) \<and>
   b_id (blocks (bm_run demo_mgr [OpAlloc (demo_id 5), OpMarkCompleted (demo_id 5), OpInvalidate 7,
      OpAlloc (demo_id 5), OpMarkCompleted (demo_id 5)]) ! 0) = demo_id 5 \<and>
   b_status (blocks (bm_run demo_mgr [OpAlloc (demo_id 5), OpMarkCompleted (demo_id 5), OpInvalidate 7,
      OpAlloc (demo_id 5), OpMarkCompleted (demo_id 5)]) ! 0) = BS_COMPLETE \<and>
   b_id (blocks (bm_run demo_mgr [OpAlloc (demo_id 5), OpMarkCompleted (demo_id 5), OpInvalidate 7,
      OpAlloc (demo_id 5), OpMarkCompleted (demo_id 5)]) ! 1) = demo_id 5 \<and>
   b_status (blocks (bm_run demo_mgr [OpAlloc (demo_id 5), OpMarkCompleted (demo_id 5), OpInvalidate 7,
      OpAlloc (demo_id 5), OpMarkCompleted (demo_id 5)]) ! 1) = BS_PENDING \<and>
   bm_warnings (bm_run demo_mgr [OpAlloc (demo_id 5), OpMarkCompleted (demo_id 5), OpInvalidate 7,
      OpAlloc (demo_id 5), OpMarkCompleted (demo_id 5)]) =
     [''allocating block that is already in list'', ''assertion failed: b->status == BS_PENDING''] \<and>
   \<not> unique_live_ids (bm_run demo_mgr [OpAlloc (demo_id 5), OpMarkCompleted (demo_id 5),
      OpInvalidate 7, OpAlloc (demo_id 5), OpMarkCompleted (demo_id 5)])"
proof -
  define bm3 where "bm3 = bm_run demo_mgr [OpAlloc (demo_id 5), OpMarkCompleted (demo_id 5), OpInvalidate 7]"
  define bm where "bm = bm_run demo_mgr [OpAlloc (demo_id 5), OpMarkCompleted (demo_id 5), OpInvalidate 7,
      OpAlloc (demo_id 5), OpMarkCompleted (demo_id 5)]"
  have a: "list_all (\<lambda>b. b_status b = BS_INVALID \<and> b_refs b = 0) (blocks bm3)"
    unfolding bm3_def by (simp add: demo_mgr_def bm_eval)
  have b: "length (blocks bm) = 32"
      "b_id (blocks bm ! 0) = demo_id 5" "b_status (blocks bm ! 0) = BS_COMPLETE"
      "b_id (blocks bm ! Suc 0) = demo_id 5" "b_status (blocks bm ! Suc 0) = BS_PENDING"
      "bm_warnings bm =
         [''allocating block that is already in list'', ''assertion failed: b->status == BS_PENDING'']"
    unfolding bm_def by (simp_all add: demo_mgr_def bm_eval)
  have "\<not> (0 < length (blocks bm) \<longrightarrow> Suc 0 < length (blocks bm) \<longrightarrow>
      (0::nat) \<noteq> Suc 0 \<and> b_status (blocks bm ! 0) \<noteq> BS_INVALID \<and> b_status (blocks bm ! Suc 0) \<noteq> BS_INVALID
        \<longrightarrow> \<not> block_eq (b_id (blocks bm ! 0)) (b_id (blocks bm ! Suc 0)))"
    by (simp add: b block_eq_def)
  then have u: "\<not> unique_live_ids bm"
    unfolding unique_live_ids_def by blast
  from a b u show ?thesis
    unfolding bm3_def bm_def by simp
qed

text \<open>In particular, the ids of the live slots are not unique after the reload.\<close>

theorem BlockMgr_reload_duplicates_id_witness:
  "\<not> unique_live_ids (bm_run demo_mgr [OpAlloc (demo_id 5), OpMarkCompleted (demo_id 5),
      OpInvalidate 7, OpAlloc (demo_id 5), OpMarkCompleted (demo_id 5)])"
  using BlockMgr_reload_duplicates_id by blast

section \<open>Registry: proofs\<close>

lemma first_index_None: "first_index P xs = None \<longleftrightarrow> (\<forall>x \<in> set xs. \<not> P x)"
  by (induction xs) auto

lemma first_index_Some:
  "first_index P xs = Some i \<longleftrightarrow> i < length xs \<and> P (xs ! i) \<and> (\<forall>k < i. \<not> P (xs ! k))"
proof (induction xs arbitrary: i)
  case Nil
  then show ?case by simp
next
  case (Cons x xs)
  show ?case
  proof (cases "P x")
    case True
    then show ?thesis by (cases i) auto
  next
    case False
    show ?thesis
    proof (cases i)
      case 0
      with False show ?thesis by simp
    next
      case (Suc i')
      with False Cons.IH [of i'] show ?thesis
        by (auto simp add: less_Suc_eq_0_disj)
    qed
  qed
qed

lemma holds_at_first_index:
  assumes "holds_at m i buf size0 r" and "a \<in> buf_range buf size0"
  shows "first_index (\<lambda>eb. matches eb a) (extant_bufs m) = Some i"
proof -
  from assms have "matches (extant_bufs m ! i) a"
    by (simp add: holds_at_def matches_def buf_range_def)
  moreover from assms have "\<forall>k < i. \<not> matches (extant_bufs m ! k) a"
    by (auto simp add: holds_at_def)
  ultimately show ?thesis using assms(1)
    by (simp add: first_index_Some holds_at_def)
qed

lemma eb_assert_fields [simp]:
  "extant_bufs (eb_assert c msg m) = extant_bufs m" "epoch (eb_assert c msg m) = epoch m"
  "extant_bufs (eb_warn msg m) = extant_bufs m" "epoch (eb_warn msg m) = epoch m"
  by (simp_all add: eb_assert_def eb_warn_def)

lemma add_holds_at:
  assumes nz: "buf \<noteq> 0" and un: "untracked m (buf_range buf size0)"
  shows "holds_at (ExtantBufMgr_add m buf size0 fn ll) (add_slot m) buf size0 1"
proof (cases "first_index (\<lambda>eb. eb_buf eb = 0) (extant_bufs m)")
  case None
  have "extant_bufs (ExtantBufMgr_add m buf size0 fn ll) = extant_bufs m @
      [\<lparr>eb_buf = buf, eb_size = (if size0 = 0 then 1 else size0), eb_atom_fn = fn, eb_refs = 1,
        eb_epoch = (if ll then 0 else epoch m)\<rparr>]"
    using None by (simp add: ExtantBufMgr_add_def Let_def)
  moreover have "add_slot m = length (extant_bufs m)"
    using None by (simp add: add_slot_def)
  ultimately show ?thesis
    using un by (auto simp add: holds_at_def untracked_def nth_append)
next
  case (Some i)
  then have i: "i < length (extant_bufs m)" by (simp add: first_index_Some)
  have "extant_bufs (ExtantBufMgr_add m buf size0 fn ll) = (extant_bufs m)
      [i := (extant_bufs m ! i)\<lparr>eb_refs := 1, eb_buf := buf, eb_size := (if size0 = 0 then 1 else size0),
                                 eb_atom_fn := fn, eb_epoch := (if ll then 0 else epoch m)\<rparr>]"
    using Some by (simp add: ExtantBufMgr_add_def Let_def)
  moreover have "add_slot m = i"
    using Some by (simp add: add_slot_def)
  ultimately show ?thesis
    using un i by (auto simp add: holds_at_def untracked_def)
qed

lemma add_ref_holds_at:
  assumes h: "holds_at m i buf size0 r" and a: "a \<in> buf_range buf size0"
  shows "holds_at (add_ref m a sz fn) i buf size0 (r + 1)"
  using h holds_at_first_index [OF h a]
  by (auto simp add: add_ref_def Let_def holds_at_def)

lemma add_refs_holds_at:
  assumes "holds_at m i buf size0 r" and "\<forall>c \<in> set cs. fst c \<in> buf_range buf size0"
  shows "holds_at (add_refs m cs) i buf size0 (r + of_nat (length cs))"
  using assms
proof (induction cs arbitrary: m r)
  case Nil
  then show ?case by simp
next
  case (Cons c cs)
  obtain a sz fn where c: "c = (a, sz, fn)" by (cases c)
  with Cons.prems have "holds_at (add_ref m a sz fn) i buf size0 (r + 1)"
    by (intro add_ref_holds_at) simp_all
  from Cons.IH [OF this] Cons.prems(2) c show ?case
    by (simp add: ac_simps)
qed

lemma find_and_remove_at:
  assumes "first_index (\<lambda>eb. matches eb a) (extant_bufs m) = Some i"
  shows "fst (fst (find_and_remove m a)) = (eb_refs (extant_bufs m ! i) - 1 = 0)"
    and "snd (fst (find_and_remove m a)) =
           Some (eb_buf (extant_bufs m ! i), eb_size (extant_bufs m ! i), eb_atom_fn (extant_bufs m ! i))"
    and "extant_bufs (snd (find_and_remove m a)) = (extant_bufs m)
      [i := (if eb_refs (extant_bufs m ! i) - 1 = 0
             then (extant_bufs m ! i)\<lparr>eb_refs := eb_refs (extant_bufs m ! i) - 1, eb_buf := 0, eb_size := 0, eb_atom_fn := 0\<rparr>
             else (extant_bufs m ! i)\<lparr>eb_refs := eb_refs (extant_bufs m ! i) - 1\<rparr>)]"
  using assms by (simp_all add: find_and_remove_def Let_def)

lemma find_and_remove_holds_at:
  assumes h: "holds_at m i buf size0 r" and a: "a \<in> buf_range buf size0"
  shows "fst (fst (find_and_remove m a)) = (r - 1 = 0)"
    and "r - 1 \<noteq> 0 \<Longrightarrow> holds_at (snd (find_and_remove m a)) i buf size0 (r - 1)"
    and "r - 1 = 0 \<Longrightarrow> eb_buf (extant_bufs (snd (find_and_remove m a)) ! i) = 0
           \<and> eb_refs (extant_bufs (snd (find_and_remove m a)) ! i) = 0
           \<and> untracked (snd (find_and_remove m a)) (buf_range buf size0)"
proof -
  note fi = holds_at_first_index [OF h a]
  note far = find_and_remove_at [OF fi]
  show "fst (fst (find_and_remove m a)) = (r - 1 = 0)"
    using h by (simp add: far holds_at_def)
  show "holds_at (snd (find_and_remove m a)) i buf size0 (r - 1)" if "r - 1 \<noteq> 0"
    using h that by (auto simp add: far holds_at_def)
  show "eb_buf (extant_bufs (snd (find_and_remove m a)) ! i) = 0
           \<and> eb_refs (extant_bufs (snd (find_and_remove m a)) ! i) = 0
           \<and> untracked (snd (find_and_remove m a)) (buf_range buf size0)" if "r - 1 = 0"
  proof -
    have "\<not> matches (extant_bufs (snd (find_and_remove m a)) ! j) b"
      if "j < length (extant_bufs (snd (find_and_remove m a)))" "b \<in> buf_range buf size0" for j b
    proof (cases "j = i")
      case True
      with h \<open>r - 1 = 0\<close> show ?thesis
        by (simp add: far holds_at_def matches_def)
    next
      case False
      with h that show ?thesis
        by (simp add: far holds_at_def)
    qed
    then have "untracked (snd (find_and_remove m a)) (buf_range buf size0)"
      unfolding untracked_def by (metis in_set_conv_nth)
    then show ?thesis
      using h that by (simp add: far holds_at_def)
  qed
qed

lemma releases_holds_at:
  assumes "holds_at m i buf size0 (of_nat k)" and "0 < k" and "k < 2 ^ 32"
    and "length rels = k" and "\<forall>a \<in> set rels. a \<in> buf_range buf size0"
  shows "fst (releases m rels) = replicate (k - 1) False @ [True] \<and>
         eb_buf (extant_bufs (snd (releases m rels)) ! i) = 0 \<and>
         eb_refs (extant_bufs (snd (releases m rels)) ! i) = 0 \<and>
         untracked (snd (releases m rels)) (buf_range buf size0)"
  using assms
proof (induction rels arbitrary: m k)
  case Nil
  then show ?case by simp
next
  case (Cons a bs)
  from Cons.prems have a: "a \<in> buf_range buf size0" by simp
  have dec: "(of_nat k :: 32 word) - 1 = of_nat (k - 1)"
    using Cons.prems(2) by simp
  have zero: "((of_nat (k - 1) :: 32 word) = 0) = (k = 1)"
  proof -
    have "\<not> (2 :: nat) ^ 32 dvd k - 1" if "k \<noteq> 1"
      using that Cons.prems(2,3) by (auto dest!: dvd_imp_le)
    then show ?thesis
      by (auto simp add: word_of_nat_eq_0_iff)
  qed
  note far = find_and_remove_holds_at [OF Cons.prems(1) a, unfolded dec zero]
  obtain r m1 where r: "find_and_remove m a = (r, m1)" by (cases "find_and_remove m a")
  show ?case
  proof (cases "k = 1")
    case True
    with Cons.prems have "bs = []" by simp
    with far True r show ?thesis by simp
  next
    case False
    with far r have h1: "holds_at m1 i buf size0 (of_nat (k - 1))" and f: "fst r = False"
      by simp_all
    from Cons.prems False have "0 < k - 1" "k - 1 < 2 ^ 32" "length bs = k - 1"
      "\<forall>a \<in> set bs. a \<in> buf_range buf size0"
      by simp_all
    from Cons.IH [OF h1 this] have ih: "fst (releases m1 bs) = replicate (k - 1 - 1) False @ [True] \<and>
         eb_buf (extant_bufs (snd (releases m1 bs)) ! i) = 0 \<and>
         eb_refs (extant_bufs (snd (releases m1 bs)) ! i) = 0 \<and>
         untracked (snd (releases m1 bs)) (buf_range buf size0)" .
    have rep: "False # replicate (k - 1 - 1) False = replicate (k - 1) False"
      using \<open>0 < k - 1\<close> by (cases "k - 1") simp_all
    from ih r f have "fst (releases m (a # bs)) = False # replicate (k - 1 - 1) False @ [True]"
      and "snd (releases m (a # bs)) = snd (releases m1 bs)"
      by (simp_all add: split_beta)
    with ih show ?thesis
      unfolding rep [symmetric] by simp
  qed
qed

text \<open>
  Claim C5, as amended. A buffer is registered by \<open>add\<close> (its address is not null and no
  entry of the registry contains one of its addresses), then referenced again by
  \<open>add_ref\<close> calls on addresses inside it: \<open>k\<close> check-outs in all, \<open>k\<close> below \<open>2^32\<close>, the
  range of the 32-bit counter \<open>refs\<close>. Then \<open>k\<close> calls of \<open>find_and_remove\<close> on addresses
  inside the buffer return \<open>actually_removed = false\<close> on each of the first \<open>k - 1\<close> calls
  and \<open>true\<close> on the last one, where the count reaches zero; after it the slot is a hole
  again (\<open>buf = 0\<close>, \<open>refs = 0\<close>), ready for the next \<open>add\<close>.
\<close>

theorem registry_reference_counting:
  assumes "buf \<noteq> 0"
    and "untracked m (buf_range buf size0)"
    and "\<forall>c \<in> set refs. fst c \<in> buf_range buf size0"
    and "\<forall>a \<in> set rels. a \<in> buf_range buf size0"
    and "length rels = length refs + 1"
    and "length refs + 1 < 2 ^ 32"
  shows "fst (releases (add_refs (ExtantBufMgr_add m buf size0 fn long_lived) refs) rels)
           = replicate (length refs) False @ [True] \<and>
         eb_buf (extant_bufs (snd (releases (add_refs (ExtantBufMgr_add m buf size0 fn long_lived) refs) rels))
                  ! add_slot m) = 0 \<and>
         eb_refs (extant_bufs (snd (releases (add_refs (ExtantBufMgr_add m buf size0 fn long_lived) refs) rels))
                  ! add_slot m) = 0"
proof -
  have "holds_at (add_refs (ExtantBufMgr_add m buf size0 fn long_lived) refs) (add_slot m) buf size0
          (of_nat (length refs + 1))"
    using add_refs_holds_at [OF add_holds_at [OF assms(1,2)] assms(3)] by (simp add: ac_simps)
  from releases_holds_at [OF this _ assms(6) assms(5) assms(4)] show ?thesis
    by simp
qed

text \<open>Witness for C5: one \<open>add\<close>, two \<open>add_ref\<close> (one on an inner address), three releases.\<close>

theorem registry_reference_counting_witness:
  "fst (releases (add_refs (ExtantBufMgr_add ExtantBufMgr_ctor 4096 100 7 False)
                   [(4096, 100, 7), (4100, 1, 7)]) [4096, 4100, 4195])
     = [False, False, True]"
proof -
  have "fst (releases (add_refs (ExtantBufMgr_add ExtantBufMgr_ctor 4096 100 7 False)
                   [(4096, 100, 7), (4100, 1, 7)]) [4096, 4100, 4195])
     = replicate (length [(4096 :: nat, 100 :: nat, 7 :: nat), (4100, 1, 7)]) False @ [True]"
    using registry_reference_counting [of 4096 ExtantBufMgr_ctor 100
        "[(4096, 100, 7), (4100, 1, 7)]" "[4096, 4100, 4195]" 7 False]
    by (simp add: untracked_def ExtantBufMgr_ctor_def buf_range_def)
  then show ?thesis by simp
qed

text \<open>
  Claim C5 as stated, for every \<open>k\<close>, fails where the counter wraps: after one \<open>add\<close> and
  \<open>2^32\<close> calls of \<open>add_ref\<close> (\<open>k = 2^32 + 1\<close> check-outs) \<open>refs\<close> is 1 again, and the very
  first \<open>find_and_remove\<close> reports the buffer as fully released.
\<close>

theorem registry_refs_wrap_counterexample:
  "fst (fst (find_and_remove
         (add_refs (ExtantBufMgr_add ExtantBufMgr_ctor 4096 100 7 False)
            (replicate (2 ^ 32) (4096, 100, 7))) 4096))"
proof -
  define n :: nat where "n = 2 ^ 32"
  have u: "untracked ExtantBufMgr_ctor (buf_range 4096 100)"
    by (simp add: untracked_def ExtantBufMgr_ctor_def)
  have a: "4096 \<in> buf_range 4096 100" by (simp add: buf_range_def)
  have cs: "\<forall>c \<in> set (replicate n (4096 :: nat, 100 :: nat, 7 :: nat)). fst c \<in> buf_range 4096 100"
    using a by simp
  have "(4096 :: nat) \<noteq> 0" by simp
  from add_refs_holds_at [OF add_holds_at [OF this u] cs]
  have h: "holds_at (add_refs (ExtantBufMgr_add ExtantBufMgr_ctor 4096 100 7 False)
            (replicate n (4096, 100, 7))) (add_slot ExtantBufMgr_ctor) 4096 100 (1 + of_nat n)"
    by (simp only: length_replicate)
  have w: "(1 + of_nat n :: 32 word) - 1 = 0"
    by (simp add: n_def)
  from find_and_remove_holds_at(1) [OF h a] w
  have "fst (fst (find_and_remove
         (add_refs (ExtantBufMgr_add ExtantBufMgr_ctor 4096 100 7 False)
            (replicate n (4096, 100, 7))) 4096))"
    by (simp only: simp_thms)
  then show ?thesis unfolding n_def .
qed

section \<open>The cache allocator: proofs\<close>

declare log2.simps [simp del]

lemma ca_TEST_fields [simp]:
  "pool (ca_TEST c m a) = pool a" "bitmap (ca_TEST c m a) = bitmap a"
  "freelists (ca_TEST c m a) = freelists a" "mem_header (ca_TEST c m a) = mem_header a"
  "mem_footer (ca_TEST c m a) = mem_footer a"
  "pool (ca_warn m a) = pool a" "bitmap (ca_warn m a) = bitmap a"
  "freelists (ca_warn m a) = freelists a" "mem_header (ca_warn m a) = mem_header a"
  "mem_footer (ca_warn m a) = mem_footer a"
  by (simp_all add: ca_TEST_def ca_warn_def)

lemma is_valid_tag_TESTs_fields [simp]:
  "pool (is_valid_tag_TESTs e i m s a) = pool a" "bitmap (is_valid_tag_TESTs e i m s a) = bitmap a"
  "freelists (is_valid_tag_TESTs e i m s a) = freelists a"
  "mem_header (is_valid_tag_TESTs e i m s a) = mem_header a"
  "mem_footer (is_valid_tag_TESTs e i m s a) = mem_footer a"
  by (simp_all add: is_valid_tag_TESTs_def)

lemma set_fields [simp]:
  "pool (set_hdr l h a) = pool a" "bitmap (set_hdr l h a) = bitmap a"
  "mem_footer (set_hdr l h a) = mem_footer a"
  "pool (set_ftr y f a) = pool a" "bitmap (set_ftr y f a) = bitmap a"
  "mem_footer (set_ftr y f a) = (mem_footer a)(y := f)"
  "mem_header (set_ftr y f a) = mem_header a" "freelists (set_ftr y f a) = freelists a"
  by (auto simp add: set_hdr_def set_ftr_def split: hloc.splits)

lemma get_hdr_simps [simp]:
  "get_hdr (ca_TEST c m a) l = get_hdr a l"
  "get_hdr (ca_warn m a) l = get_hdr a l"
  "get_hdr (is_valid_tag_TESTs e i mg s a) l = get_hdr a l"
  "get_hdr (set_hdr l' h a) l = (if l = l' then h else get_hdr a l)"
  "get_hdr (set_ftr y f a) l = get_hdr a l"
  "get_hdr (a\<lparr>bitmap := b\<rparr>) l = get_hdr a l"
  "get_hdr (a\<lparr>pool := pl\<rparr>) l = get_hdr a l"
  by (auto simp add: get_hdr_def set_hdr_def set_ftr_def split: hloc.splits)

lemma log2_le: "n < 2 ^ Suc k \<Longrightarrow> log2 n \<le> k"
proof (induction k arbitrary: n)
  case 0
  then show ?case by (simp add: log2.simps)
next
  case (Suc k)
  show ?case
  proof (cases "n < 2")
    case True
    then show ?thesis by (simp add: log2.simps)
  next
    case False
    from Suc.prems have "n div 2 < 2 ^ Suc k" by simp
    then have "log2 (n div 2) \<le> k" by (rule Suc.IH)
    with False show ?thesis by (subst log2.simps) simp
  qed
qed

lemma size_class_of_less: "size_class_of s < 32"
proof -
  have "s mod 2 ^ 32 < 2 ^ Suc 31" by simp
  then have "log2 (s mod 2 ^ 32) \<le> 31" by (rule log2_le)
  then show ?thesis by (simp add: size_class_of_def)
qed

text \<open>Every successful \<open>freelist_add\<close> sets the bit of the class it adds to.\<close>

lemma freelist_add_bitmap:
  "freelist_add a p s = Some a' \<Longrightarrow> bitmap a' = bitmap a OR BIT (size_class_of s)"
  by (auto simp add: freelist_add_def Let_def split: Option.bind_splits option.splits)

lemma coalesce_and_free_bitmap:
  assumes "coalesce_and_free a p s = Some a'"
  shows "bitmap a' \<noteq> 0"
proof -
  from assms obtain a2 p1 s2 where "freelist_add a2 p1 s2 = Some a'"
    by (auto simp add: coalesce_and_free_def Let_def split: prod.splits)
  then have b: "bitmap a' = bitmap a2 OR BIT (size_class_of s2)" by (rule freelist_add_bitmap)
  have "bit (bitmap a') (size_class_of s2)"
    unfolding b using size_class_of_less [of s2]
    by (simp add: bit_or_iff BIT_def bit_push_bit_iff bit_exp_iff)
  then show ?thesis by auto
qed



subsection \<open>The freelists\<close>








lemma set_insert_desc [simp]: "set (insert_desc p ys) = insert p (set ys)"
  by (induction ys) auto








text \<open>The views are blind to reports, to the bitmap and to the pool.\<close>

lemma views_frame [simp]:
  "nxt (ca_TEST c m a) = nxt a" "prv (ca_TEST c m a) = prv a" "hsz (ca_TEST c m a) = hsz a"
  "hvalid (ca_TEST c m a) = hvalid a" "fvalid (ca_TEST c m a) = fvalid a"
  "nxt (ca_warn m a) = nxt a" "prv (ca_warn m a) = prv a" "hsz (ca_warn m a) = hsz a"
  "hvalid (ca_warn m a) = hvalid a" "fvalid (ca_warn m a) = fvalid a"
  "nxt (is_valid_tag_TESTs e i mg s a) = nxt a" "prv (is_valid_tag_TESTs e i mg s a) = prv a"
  "hsz (is_valid_tag_TESTs e i mg s a) = hsz a"
  "hvalid (is_valid_tag_TESTs e i mg s a) = hvalid a" "fvalid (is_valid_tag_TESTs e i mg s a) = fvalid a"
  "nxt (a\<lparr>bitmap := b\<rparr>) = nxt a" "prv (a\<lparr>bitmap := b\<rparr>) = prv a" "hsz (a\<lparr>bitmap := b\<rparr>) = hsz a"
  "hvalid (a\<lparr>bitmap := b\<rparr>) = hvalid a" "fvalid (a\<lparr>bitmap := b\<rparr>) = fvalid a"
  "nxt (a\<lparr>pool := pl\<rparr>) = nxt a" "prv (a\<lparr>pool := pl\<rparr>) = prv a" "hsz (a\<lparr>pool := pl\<rparr>) = hsz a"
  "hvalid (a\<lparr>pool := pl\<rparr>) = hvalid a" "fvalid (a\<lparr>pool := pl\<rparr>) = fvalid a"
  by (simp_all add: fun_eq_iff nxt_def prv_def hsz_def hvalid_def fvalid_def get_hdr_def split: hloc.splits)

lemma wiped_invalid [simp]:
  "\<not> is_valid_tag HEADER_ID (h_id wiped_Header) (h_magic wiped_Header) s"
  "\<not> is_valid_tag FOOTER_ID (f_id wiped_Footer) (f_magic wiped_Footer) s"
  by (simp_all add: is_valid_tag_def wiped_Header_def wiped_Footer_def MAGIC_def FOURCC_def)















subsection \<open>The scan of the larger classes\<close>









lemma alloc_from_class_loop_fail:
  assumes "alloc_from_class_loop a0 cur0 s0 = Some y0"
  shows "fst y0 = None \<longrightarrow> snd y0 = a0"
proof (rule alloc_from_class_loop.raw_induct
    [where P = "\<lambda>a cur s y. fst y = None \<longrightarrow> snd y = a", OF _ assms])
  fix loop :: "CacheAllocator \<Rightarrow> nat option \<Rightarrow> nat \<Rightarrow> (nat option \<times> CacheAllocator) option"
    and a cur s y
  assume IH: "\<And>a cur s y. loop a cur s = Some y \<Longrightarrow> fst y = None \<longrightarrow> snd y = a"
    and body: "(case cur of
        None \<Rightarrow> Some (None, a)
      | Some c \<Rightarrow>
          if h_size_pa (mem_header a c) \<ge> s
          then (let p = c;
                    remnant_pa = h_size_pa (mem_header a c) - s;
                    a1 = freelist_remove a c
                in if remnant_pa \<noteq> 0
                   then do { a2 \<leftarrow> freelist_add a1 (p + s) remnant_pa; Some (Some p, a2) }
                   else Some (Some p, a1))
          else loop a (h_next (mem_header a c)) s) = Some y"
  show "fst y = None \<longrightarrow> snd y = a"
    using body IH
    by (auto simp add: Let_def split: option.splits if_splits Option.bind_splits)
qed

lemma alloc_from_class_fail:
  "alloc_from_class a c s = Some (None, a1) \<Longrightarrow> a1 = a"
  using alloc_from_class_loop_fail [of a "h_next (freelists a c)" s "(None, a1)"]
  by (simp add: alloc_from_class_def)

lemma try_classes_fail:
  "try_classes a cs s = Some (None, a1) \<Longrightarrow> a1 = a"
proof (induction cs arbitrary: a)
  case Nil
  then show ?case by simp
next
  case (Cons c cs)
  then show ?case
    by (auto split: Option.bind_splits option.splits dest!: alloc_from_class_fail)
qed




subsection \<open>The invariant of the allocator\<close>




lemma nodes_drop: "nodes (drop_node L c x) \<subseteq> nodes L"
proof
  fix y assume "y \<in> nodes (drop_node L c x)"
  then obtain c' where "y \<in> set (drop_node L c x c')" by (auto simp add: nodes_def)
  then have "y \<in> set (L c')"
    using set_remove1_subset [of x "L c"]
    by (cases "c' = c") (auto simp add: drop_node_def)
  then show "y \<in> nodes L" by (auto simp add: nodes_def)
qed


lemma free_inv_frame [simp]:
  "free_inv (ca_TEST b m a) L = free_inv a L"
  "free_inv (ca_warn m a) L = free_inv a L"
  "free_inv (is_valid_tag_TESTs e i mg s a) L = free_inv a L"
  by (simp_all add: free_inv_def freelist_def node_ok_def)

lemma hole_frame [simp]:
  "hole (ca_TEST b m a) L R p s = hole a L R p s"
  "hole (ca_warn m a) L R p s = hole a L R p s"
  "hole (is_valid_tag_TESTs e i mg t a) L R p s = hole a L R p s"
  by (simp_all add: hole_def)

lemma ca_inv_frame [simp]:
  "ca_inv (ca_TEST b m a) L R = ca_inv a L R"
  "ca_inv (ca_warn m a) L R = ca_inv a L R"
  "ca_inv (is_valid_tag_TESTs e i mg s a) L R = ca_inv a L R"
  by (simp_all add: ca_inv_def)






lemma apart_merge:
  "apart q t x sx \<Longrightarrow> apart q t (x + sx) s \<Longrightarrow> 0 < t \<Longrightarrow> apart q t x (sx + s)"
  by (auto simp add: apart_def)


























subsection \<open>Allocation and release keep the invariant\<close>

































lemma size_classes [simp]:
  "size_class_of 4096 = 12" "size_class_of 8192 = 13" "size_class_of 16384 = 14"
  by (simp_all add: size_class_of_def log2.simps)

lemma round_up_pages [simp]:
  "round_up 100 BUF_ALIGN = 4096" "round_up 4096 BUF_ALIGN = 4096"
  "round_up 8192 BUF_ALIGN = 8192" "round_up 16384 BUF_ALIGN = 16384"
  by (simp_all add: round_up_def BUF_ALIGN_def)

lemma nodes_empty [simp]: "nodes (\<lambda>c. []) = {}"
  by (simp add: nodes_def)


lemma ca_run_append:
  "ca_run st (xs @ ys) = ca_run st xs \<bind> (\<lambda>st1. ca_run st1 ys)"
  by (induction xs arbitrary: st) (simp_all split: Option.bind_split)




subsection \<open>Coalescing\<close>










subsection \<open>The order of the allocation strategies\<close>













section \<open>The coordinating functions: proofs\<close>

lemma alloc_exhausted:
  assumes "arena_exhausted a size0"
  shows "\<exists>a1. CacheAllocator_alloc a size0 = Some (None, a1) \<and> pool a1 = pool a \<and>
            bitmap a1 = bitmap a \<and> freelists a1 = freelists a"
proof -
  let ?s = "round_up (if size0 = 0 then 1 else size0) BUF_ALIGN"
  have c: "alloc_from_class a (size_class_of ?s) ?s = Some (None, a)"
    using assms by (simp add: alloc_from_class_def arena_exhausted_def alloc_from_class_loop.simps)
  have p: "pool_alloc (pool a) ?s = None"
    using assms by (simp add: pool_alloc_def arena_exhausted_def)
  have l: "alloc_from_larger_class a (size_class_of ?s) ?s =
      Some (None, ca_TEST (bitmap a < BIT (size_class_of ?s + 1)) ''TEST failed: bitmap < BIT(start_size_class+1)'' a)"
    using assms by (simp add: alloc_from_larger_class_def arena_exhausted_def larger_class_loop.simps)
  show ?thesis
    by (simp add: CacheAllocator_alloc_def Let_def c p l)
qed

lemma file_buf_alloc_loop_stuck:
  assumes "file_buf_alloc_loop junk0 sz0 g0 n0 = Some y0"
  shows "\<not> stuck junk0 sz0 g0"
proof (rule file_buf_alloc_loop.raw_induct
    [where P = "\<lambda>junk size0 g attempts y. \<not> stuck junk size0 g", OF _ assms])
  fix loop :: "nat \<times> nat \<Rightarrow> nat \<Rightarrow> Globals \<Rightarrow> 32 word \<Rightarrow> (nat \<times> Globals) option"
    and junk size0 g attempts y
  assume IH: "\<And>junk size0 g attempts y. loop junk size0 g attempts = Some y \<Longrightarrow> \<not> stuck junk size0 g"
    and body: "CacheAllocator_alloc (cache_allocator g) size0 \<bind>
     (\<lambda>(r, ca).
         case r of
         None \<Rightarrow>
           let (removed, discarded, fc) =
                 case remove_least_valuable (file_cache g) of
                 None \<Rightarrow> (False, junk, file_cache g)
                 | Some (d, fc1) \<Rightarrow> (True, d, fc1);
               g1 = if removed then g
                    else fc_warn ''TEST failed: removed'' g
           in CacheAllocator_free ca (fst discarded) (snd discarded) \<bind>
              (\<lambda>ca1. let g2 = g1\<lparr>cache_allocator := ca1, file_cache := fc\<rparr>;
                         g3 = if 50 < attempts
                              then fc_warn
                                    ''possible infinite loop: failed to make room in cache''
                                    g2
                              else g2
                     in loop junk size0 g3 (attempts + 1))
         | Some buf \<Rightarrow> Some (buf, g\<lparr>cache_allocator := ca\<rparr>)) =
     Some y"
  show "\<not> stuck junk size0 g"
  proof
    assume s: "stuck junk size0 g"
    then obtain a1 where a1: "CacheAllocator_alloc (cache_allocator g) size0 = Some (None, a1)"
        "pool a1 = pool (cache_allocator g)" "bitmap a1 = bitmap (cache_allocator g)"
        "freelists a1 = freelists (cache_allocator g)"
      using alloc_exhausted [of "cache_allocator g" size0] by (auto simp add: stuck_def)
    have e: "remove_least_valuable (file_cache g) = None"
      using s by (simp add: stuck_def remove_least_valuable_def)
    have f: "CacheAllocator_free a1 (fst junk) (snd junk) = Some (ca_warn ''invalid pointer'' a1)"
      using s a1 by (simp add: CacheAllocator_free_def stuck_def)
    define g3 where "g3 = (let g2 = (fc_warn ''TEST failed: removed'' g)
              \<lparr>cache_allocator := ca_warn ''invalid pointer'' a1, file_cache := file_cache g\<rparr>
         in if 50 < attempts
            then fc_warn ''possible infinite loop: failed to make room in cache'' g2 else g2)"
    have s3: "stuck junk size0 g3"
      using s a1 by (simp add: g3_def stuck_def arena_exhausted_def fc_warn_def Let_def)
    from body have "loop junk size0 g3 (attempts + 1) = Some y"
      by (auto simp add: a1 e f g3_def Let_def split: if_splits)
    from IH [OF this] s3 show False by simp
  qed
qed

text \<open>
  Claim C2. The loop of \<open>file_buf_alloc\<close> has no bound: with an empty file cache and a
  request the allocator cannot serve it goes round for ever, and so the call does not
  return (the value \<open>None\<close> of the partial function).
\<close>

theorem file_buf_alloc_never_returns:
  assumes "stuck junk size0 g"
  shows "file_buf_alloc junk g size0 fn long_lived = None"
proof -
  have "file_buf_alloc_loop junk size0 g 0 = None"
    using file_buf_alloc_loop_stuck [of junk size0 g 0] assms by (cases "file_buf_alloc_loop junk size0 g 0") auto
  then show ?thesis by (simp add: file_buf_alloc_def)
qed

text \<open>
  Claim C2 at a concrete input: freshly constructed globals and a request one byte
  larger than the arena.
\<close>

theorem file_buf_alloc_oversized_request_diverges:
  "file_buf_alloc (0, 0) (Globals_ctor 65536 4096 16777216) (MAX_CACHE_SIZE + 1) 7 False = None"
proof -
  have "stuck (0, 0) (MAX_CACHE_SIZE + 1) (Globals_ctor 65536 4096 16777216)"
    by (simp add: stuck_def arena_exhausted_def Globals_ctor_def CacheAllocator_ctor_def
        pool_create_def pool_contains_def zero_Header_def round_up_def MAX_CACHE_SIZE_def BUF_ALIGN_def)
  from file_buf_alloc_never_returns [OF this] show ?thesis .
qed

text \<open>
  Claim C10. \<open>file_buf_free\<close> of the null pointer returns \<open>ERR_OK\<close> at once: registry,
  file cache and allocator are the ones before the call.
\<close>

theorem file_buf_free_null:
  "file_buf_free g 0 = Some (ERR_OK, g)"
  by (simp add: file_buf_free_def)

subsection \<open>file_buf_free\<close>

text \<open>
  What \<open>file_buf_free\<close> does with the allocator: it calls \<open>CacheAllocator::free\<close> when
  \<open>find_and_remove\<close> reports the last reference gone and \<open>file_cache.retrieve\<close> finds no
  entry under the owner, and leaves the allocator alone otherwise.
\<close>

lemma file_buf_free_allocator:
  assumes "buf \<noteq> 0"
    and "find_and_remove (extant g) buf = ((fully_released, outs), m1)"
  shows "map_option (\<lambda>r. cache_allocator (snd r)) (file_buf_free g buf) =
     (case outs of
        Some (exact_buf, actual_size, fn) \<Rightarrow>
          if fully_released \<and> Cache_retrieve (file_cache g) fn = None
          then CacheAllocator_free (cache_allocator g) exact_buf actual_size
          else Some (cache_allocator g)
      | None \<Rightarrow> Some (cache_allocator g))"
  using assms
  by (auto simp add: file_buf_free_def Let_def fc_warn_def
      split: prod.splits option.splits bool.splits Option.bind_split)

lemma demo_find_and_remove:
  "fst (find_and_remove (extant demo_g2) 16781312) = (True, Some (16781312, 4096, 7))"
  "fst (find_and_remove (extant demo_g3) 16781312) = (True, Some (16781312, 4096, 7))"
  by (simp_all add: demo_g3_def demo_g2_def find_and_remove_def matches_def Let_def
       eb_assert_def eb_warn_def)

lemmas ca_eval = CacheAllocator_alloc_def alloc_from_class_def alloc_from_class_loop.simps
  pool_alloc_def pool_create_def pool_contains_def round_up_def BUF_ALIGN_def MAX_CACHE_SIZE_def
  CacheAllocator_ctor_def zero_Header_def zero_Footer_def Let_def

lemma demo_alloc1: "file_buf_alloc (0, 0) demo_globals 4096 7 False = Some (16777216, demo_g1)"
  by (simp add: file_buf_alloc_def file_buf_alloc_loop.simps demo_globals_def demo_g1_def
      Globals_ctor_def ca_eval ExtantBufMgr_add_def ExtantBufMgr_ctor_def
      eb_assert_def)

lemma demo_alloc2: "file_buf_alloc (0, 0) demo_g1 4096 7 False = Some (16781312, demo_g2)"
  by (simp add: file_buf_alloc_def file_buf_alloc_loop.simps demo_globals_def demo_g1_def
      demo_g2_def Globals_ctor_def ca_eval ExtantBufMgr_add_def
      ExtantBufMgr_ctor_def eb_assert_def)

lemma demo_cache_add: "file_cache_add demo_g2 16777216 4096 7 = (ERR_OK, demo_g3)"
  by (simp add: file_cache_add_def make_read_only_def demo_g3_def demo_g2_def demo_globals_def
      Globals_ctor_def Cache_add_def Let_def)

lemma demo_retrieve: "Cache_retrieve (file_cache demo_g3) 7 = Some (16777216, 4096)"
  by (simp add: demo_g3_def Cache_retrieve_def)

lemma demo_not_freed:
  "map_option (\<lambda>r. (fst r, cache_allocator (snd r), fc_warnings (snd r)))
       (file_buf_free demo_g3 16781312) =
     Some (ERR_OK, cache_allocator demo_g3, [''assertion failed: buf_in_cache == buf''])"
proof -
  obtain m1 where "find_and_remove (extant demo_g3) 16781312 = ((True, Some (16781312, 4096, 7)), m1)"
    using demo_find_and_remove(2) by (cases "find_and_remove (extant demo_g3) 16781312") simp
  then show ?thesis
    using demo_retrieve
    by (simp add: file_buf_free_def Let_def fc_warn_def demo_g3_def demo_g2_def demo_globals_def
        Globals_ctor_def)
qed

lemma demo_free_changes:
  "CacheAllocator_free (cache_allocator demo_g3) 16781312 4096 \<noteq> Some (cache_allocator demo_g3)"
proof
  assume a: "CacheAllocator_free (cache_allocator demo_g3) 16781312 4096 = Some (cache_allocator demo_g3)"
  have "pool_contains (pool (cache_allocator demo_g3)) 16781312"
    "pool_contains (pool (cache_allocator demo_g3)) (16781312 + round_up 4096 BUF_ALIGN - 1)"
    by (simp_all add: demo_g3_def demo_g2_def pool_contains_def MAX_CACHE_SIZE_def round_up_def
        BUF_ALIGN_def)
  with a have "coalesce_and_free (cache_allocator demo_g3) 16781312 (round_up 4096 BUF_ALIGN)
      = Some (cache_allocator demo_g3)"
    by (simp add: CacheAllocator_free_def Let_def)
  then have "bitmap (cache_allocator demo_g3) \<noteq> 0" by (rule coalesce_and_free_bitmap)
  then show False
    by (simp add: demo_g3_def demo_g2_def demo_globals_def Globals_ctor_def CacheAllocator_ctor_def)
qed

text \<open>
  Claim C7. The code does not free every fully released buffer that the cache does not
  hold. \<open>file_buf_free\<close> asks the cache for the owner only; an entry found there is
  taken to be the released buffer, and \<open>debug_assert(buf_in_cache == buf)\<close> is all that
  checks it. Two buffers are allocated for one file and the first is put into the cache.
  When the last reference to the second is released, the cache returns the first: the
  assertion fails, \<open>cache_allocator.free\<close> is not called although ``buf is not in cache -
  needs to be freed immediately'', and the registry has dropped the buffer. Its memory is
  lost.
\<close>

theorem file_buf_free_leaks_uncached_buffer:
  "file_buf_alloc (0, 0) demo_globals 4096 7 False = Some (16777216, demo_g1) \<and>
   file_buf_alloc (0, 0) demo_g1 4096 7 False = Some (16781312, demo_g2) \<and>
   file_cache_add demo_g2 16777216 4096 7 = (ERR_OK, demo_g3) \<and>
   fst (find_and_remove (extant demo_g3) 16781312) = (True, Some (16781312, 4096, 7)) \<and>
   Cache_retrieve (file_cache demo_g3) 7 = Some (16777216, 4096) \<and>
   map_option (\<lambda>r. (fst r, cache_allocator (snd r), fc_warnings (snd r)))
       (file_buf_free demo_g3 16781312) =
     Some (ERR_OK, cache_allocator demo_g3, [''assertion failed: buf_in_cache == buf'']) \<and>
   CacheAllocator_free (cache_allocator demo_g3) 16781312 4096 \<noteq> Some (cache_allocator demo_g3)"
  using demo_alloc1 demo_alloc2 demo_cache_add demo_find_and_remove(2) demo_retrieve
    demo_not_freed demo_free_changes
  by (intro conjI)

text \<open>
  In particular, what the call leaves of the allocator is not what
  \<open>cache_allocator.free\<close> would have left.
\<close>

theorem file_buf_free_leaks_uncached_buffer_witness:
  "map_option (\<lambda>r. cache_allocator (snd r)) (file_buf_free demo_g3 16781312) \<noteq>
     CacheAllocator_free (cache_allocator demo_g3) 16781312 4096"
proof -
  from file_buf_free_leaks_uncached_buffer
  have 1: "map_option (\<lambda>r. (fst r, cache_allocator (snd r), fc_warnings (snd r)))
       (file_buf_free demo_g3 16781312) =
     Some (ERR_OK, cache_allocator demo_g3, [''assertion failed: buf_in_cache == buf''])"
    and 2: "CacheAllocator_free (cache_allocator demo_g3) 16781312 4096 \<noteq> Some (cache_allocator demo_g3)"
    by blast+
  from 1 obtain r where "file_buf_free demo_g3 16781312 = Some r"
      "cache_allocator (snd r) = cache_allocator demo_g3"
    by (cases "file_buf_free demo_g3 16781312") auto
  with 2 show ?thesis by auto
qed

end
